theory Spec2Isabelle
  imports Complex_Main
begin

section \<open>Data model of the producer\<close>

text \<open>
  The development embeds \<^verbatim>\<open>aiokafka/producer/producer.py\<close> (class
  \<^verbatim>\<open>AIOKafkaProducer\<close>). Its collaborators (the errors module, the message
  accumulator, the transaction manager, the cluster metadata and the network client) are
  other files; what the producer reads from them is a field of the records below or an
  argument of the functions, and what it does to them is returned as a value.
\<close>

type_synonym node_id = int

text \<open>\<^verbatim>\<open>TopicPartition(topic, partition)\<close>.\<close>

type_synonym topic_partition = "string \<times> int"

type_synonym bytes = string

text \<open>
  The error classes \<^verbatim>\<open>Errors.for_code\<close> can return and the producer names, and
  \<^verbatim>\<open>OtherKafkaError\<close> for every other class (by its code).
\<close>

datatype kafka_error =
    NoError
  | UnknownTopicOrPartitionError
  | LeaderNotAvailableError
  | NotLeaderForPartitionError
  | RequestTimedOutError
  | MessageSizeTooLargeError
  | CoordinatorLoadInProgressError
  | CoordinatorNotAvailableError
  | NotCoordinatorError
  | DuplicateSequenceNumber
  | InvalidProducerEpoch
  | InvalidTxnState
  | InvalidProducerIdMapping
  | ConcurrentTransactions
  | ProducerFenced
  | OtherKafkaError int

text \<open>
  What a call of the producer raises: a failed \<^verbatim>\<open>assert\<close> (with its message),
  the \<^verbatim>\<open>KeyError\<close> of \<^verbatim>\<open>set.remove\<close>, the \<^verbatim>\<open>AttributeError\<close> of a method
  called on None, or a Kafka error.
\<close>

datatype py_exception =
    AssertionError string
  | KeyError
  | AttributeError
  | KafkaError kafka_error

subsection \<open>Transaction manager\<close>

datatype txn_state = UNINITIALIZED | READY | IN_TRANSACTION | COMMITTING | ABORTING | FENCED

datatype transaction_result = ABORT | COMMIT

text \<open>
  Modelled from the spec: the transaction state owned by the transaction manager
  (\<^verbatim>\<open>transaction_manager.py\<close> is not among the sources): the fields of section 3,
  with \<^verbatim>\<open>txn_consumer_group\<close> for the consumer group whose offsets were enlisted in
  the current transaction.
\<close>

record transaction_manager =
  transactional_id :: "string option"
  producer_id :: int
  producer_epoch :: int
  txn_status :: txn_state
  txn_partitions :: "topic_partition set"
  pending_partitions :: "topic_partition set"
  pending_groups :: "string list"
  pending_offsets :: "(string \<times> (topic_partition \<times> int \<times> string) list) list"
  txn_consumer_group :: "string option"

text \<open>Modelled from the spec: \<^verbatim>\<open>partitions_to_add()\<close>, the partitions awaiting enlistment.\<close>

definition partitions_to_add :: "transaction_manager \<Rightarrow> topic_partition set" where
  "partitions_to_add t = pending_partitions t"

text \<open>Modelled from the spec: \<^verbatim>\<open>consumer_group_to_add()\<close>, a group not yet added via AddOffsetsToTxn.\<close>

definition consumer_group_to_add :: "transaction_manager \<Rightarrow> string option" where
  "consumer_group_to_add t = (case pending_groups t of [] \<Rightarrow> None | g # _ \<Rightarrow> Some g)"

text \<open>
  Modelled from the spec: \<^verbatim>\<open>offsets_to_commit()\<close>, the offsets stashed for a group
  that has been added, with the group.
\<close>

definition offsets_to_commit ::
  "transaction_manager \<Rightarrow> ((topic_partition \<times> int \<times> string) list \<times> string) option" where
  "offsets_to_commit t =
     (case pending_offsets t of [] \<Rightarrow> None | (g, offsets) # _ \<Rightarrow> Some (offsets, g))"

text \<open>
  Modelled from the spec: \<^verbatim>\<open>needs_transaction_commit()\<close> returns COMMIT, ABORT or
  None: the end state marked by \<^verbatim>\<open>committing_transaction\<close> or
  \<^verbatim>\<open>aborting_transaction\<close>.
\<close>

definition needs_transaction_commit :: "transaction_manager \<Rightarrow> transaction_result option" where
  "needs_transaction_commit t =
     (case txn_status t of
        COMMITTING \<Rightarrow> Some COMMIT
      | ABORTING \<Rightarrow> Some ABORT
      | _ \<Rightarrow> None)"

text \<open>
  Modelled from the spec: \<^verbatim>\<open>is_empty_transaction()\<close>: no partition and no offsets
  were enlisted in the transaction.
\<close>

definition is_empty_transaction :: "transaction_manager \<Rightarrow> bool" where
  "is_empty_transaction t = (txn_partitions t = {} \<and> txn_consumer_group t = None)"

text \<open>
  Modelled from the spec: \<^verbatim>\<open>complete_transaction()\<close>, the transition from
  COMMITTING or ABORTING to READY, which resets the transient fields. The spec gives the
  transition from those two states only, and the producer calls it in no other.
\<close>

definition complete_transaction :: "transaction_manager \<Rightarrow> transaction_manager" where
  "complete_transaction t =
     t\<lparr>txn_status := READY, txn_partitions := {}, pending_partitions := {},
       pending_groups := [], pending_offsets := [], txn_consumer_group := None\<rparr>"

text \<open>Modelled from the spec: \<^verbatim>\<open>partition_added(tp)\<close>, the coordinator acknowledged the enlistment.\<close>

definition partition_added :: "topic_partition \<Rightarrow> transaction_manager \<Rightarrow> transaction_manager" where
  "partition_added tp t =
     t\<lparr>pending_partitions := pending_partitions t - {tp},
       txn_partitions := insert tp (txn_partitions t)\<rparr>"

subsection \<open>Batches\<close>

text \<open>
  Modelled from the spec: a batch carries its creation instant and the time it may live
  (\<^verbatim>\<open>send\<close> passes \<^verbatim>\<open>request_timeout_ms / 1000\<close>), in seconds, and whether
  it may be drained (it is full or its linger has elapsed). The class is part of the
  message accumulator, which is not among the sources.
\<close>

record message_batch =
  ctime :: real
  ttl :: real
  drainable :: bool

text \<open>Modelled from the spec: \<^verbatim>\<open>batch.expired()\<close>, the age of the batch exceeds its time to live.\<close>

definition expired :: "real \<Rightarrow> message_batch \<Rightarrow> bool" where
  "expired now batch = (now - ctime batch > ttl batch)"

text \<open>
  The calls the producer makes on a batch: \<^verbatim>\<open>batch.done(offset, timestamp)\<close>,
  \<^verbatim>\<open>batch.done_noack()\<close>, \<^verbatim>\<open>batch.failure(exception=...)\<close>, and
  \<^verbatim>\<open>self._message_accumulator.reenqueue(batch)\<close>.
\<close>

datatype batch_call =
    Done int int
  | DoneNoack
  | Failure kafka_error
  | Reenqueue

subsection \<open>Producer\<close>

text \<open>
  The attributes of \<^verbatim>\<open>AIOKafkaProducer\<close> the modelled methods read or write. The
  last seven fields stand for declarations of other files: the \<^verbatim>\<open>retriable\<close> and
  \<^verbatim>\<open>invalid_metadata\<close> flags of the error classes and \<^verbatim>\<open>Errors.for_code\<close>,
  \<^verbatim>\<open>LegacyRecordBatchBuilder.record_overhead\<close>, the two partition queries of the
  cluster metadata, and whether a \<^verbatim>\<open>TransactionResult\<close> constant is true as a
  Python condition (the transaction manager declares COMMIT as 1 and ABORT as 0).
\<close>

record producer =
  txn_manager :: "transaction_manager option"
  acks :: int
  key_serializer :: "(bytes option \<Rightarrow> bytes option) option"
  value_serializer :: "(bytes option \<Rightarrow> bytes option) option"
  partitioner :: "bytes option \<Rightarrow> nat list \<Rightarrow> nat list \<Rightarrow> int"
  max_request_size :: int
  request_timeout_ms :: int
  retry_backoff :: real
  producer_magic :: int
  in_flight :: "node_id set"
  muted_partitions :: "topic_partition set"
  retriable :: "kafka_error \<Rightarrow> bool"
  invalid_metadata :: "kafka_error \<Rightarrow> bool"
  for_code :: "int \<Rightarrow> kafka_error"
  record_overhead :: "int \<Rightarrow> int"
  partitions_for_topic :: "string \<Rightarrow> nat list"
  available_partitions_for_topic :: "string \<Rightarrow> nat list"
  result_truthy :: "transaction_result \<Rightarrow> bool"

section \<open>Retrying a batch\<close>

text \<open>
  \<^verbatim>\<open>_can_retry(error, batch)\<close>, with the loop's clock at the call. An idempotent or
  transactional producer has a transaction manager; a plain one has none.
\<close>

definition can_retry :: "producer \<Rightarrow> real \<Rightarrow> kafka_error \<Rightarrow> message_batch \<Rightarrow> bool" where
  "can_retry p now error batch =
     (if txn_manager p = None \<and> expired now batch then False
      else if retriable p error \<or> error = UnknownTopicOrPartitionError then True
      else False)"

section \<open>Produce requests\<close>

text \<open>
  One entry of a produce response: \<^verbatim>\<open>(partition, error_code, offset, timestamp)\<close>.
  Below version 2 the entry has no timestamp and the last component is not read.
\<close>

type_synonym partition_info = "int \<times> int \<times> int \<times> int"

record produce_response =
  API_VERSION :: nat
  topics :: "(string \<times> partition_info list) list"

text \<open>
  What \<^verbatim>\<open>self.client.send(node_id, request)\<close> gave: it raised a
  \<^verbatim>\<open>KafkaError\<close>, or it returned the response.
\<close>

datatype send_result =
    SendRaised kafka_error
  | SendReturned produce_response

text \<open>
  What the handling of a produce request has done so far: the calls made on the batches
  (each batch named by its partition, the key of \<^verbatim>\<open>batches\<close>) in program order,
  the local list \<^verbatim>\<open>reenqueue\<close>, and the number of calls of
  \<^verbatim>\<open>self.client.force_metadata_update()\<close>.
\<close>

record produce_effects =
  batch_calls :: "(topic_partition \<times> batch_call) list"
  reenqueue :: "topic_partition list"
  metadata_updates :: nat

definition no_effects :: produce_effects where
  "no_effects = \<lparr>batch_calls = [], reenqueue = [], metadata_updates = 0\<rparr>"

definition add_call :: "topic_partition \<Rightarrow> batch_call \<Rightarrow> produce_effects \<Rightarrow> produce_effects" where
  "add_call tp c eff = eff\<lparr>batch_calls := batch_calls eff @ [(tp, c)]\<rparr>"

text \<open>
  The body of the inner loop of \<^verbatim>\<open>_send_produce_req\<close> over the entries of a
  response (\<^verbatim>\<open>for partition_info in partitions\<close>). The \<^verbatim>\<open>if\<close> chain on
  the error ends before the test of \<^verbatim>\<open>_can_retry\<close>, which every entry with a
  batch reaches.
\<close>

definition handle_partition_info ::
  "producer \<Rightarrow> real \<Rightarrow> nat \<Rightarrow> (topic_partition \<times> message_batch) list \<Rightarrow> string \<Rightarrow>
   partition_info \<Rightarrow> produce_effects \<Rightarrow> produce_effects" where
  "handle_partition_info p now version batches topic partition_info eff =
     (case partition_info of (partition_id, error_code, offset, ts) \<Rightarrow>
        let timestamp = (if version < 2 then (- 1) else ts);
            tp = (topic, partition_id);
            error = for_code p error_code
        in case map_of batches tp of
             None \<Rightarrow> eff
           | Some batch \<Rightarrow>
               let (eff1, error1) =
                     (if error = NoError then (add_call tp (Done offset timestamp) eff, error)
                      else if error = DuplicateSequenceNumber
                        then (add_call tp (Done offset timestamp) eff, error)
                      else if error = InvalidProducerEpoch then (eff, ProducerFenced)
                      else (eff, error))
               in if \<not> can_retry p now error1 batch
                  then add_call tp (Failure error1) eff1
                  else eff1\<lparr>reenqueue := reenqueue eff1 @ [tp],
                            metadata_updates :=
                              (if invalid_metadata p error1 then Suc (metadata_updates eff1)
                               else metadata_updates eff1)\<rparr>)"

text \<open>The two nested loops over \<^verbatim>\<open>response.topics\<close>.\<close>

definition handle_response ::
  "producer \<Rightarrow> real \<Rightarrow> (topic_partition \<times> message_batch) list \<Rightarrow> produce_response \<Rightarrow>
   produce_effects" where
  "handle_response p now batches response =
     foldl (\<lambda>eff (topic, partitions).
              foldl (\<lambda>eff1 partition_info.
                       handle_partition_info p now (API_VERSION response) batches topic
                         partition_info eff1)
                eff partitions)
       no_effects (topics response)"

text \<open>The \<^verbatim>\<open>except KafkaError as err\<close> branch: the request could not be sent.\<close>

definition handle_send_error ::
  "producer \<Rightarrow> real \<Rightarrow> (topic_partition \<times> message_batch) list \<Rightarrow> kafka_error \<Rightarrow>
   produce_effects" where
  "handle_send_error p now batches err =
     foldl (\<lambda>eff (tp, batch).
              if \<not> can_retry p now err batch then add_call tp (Failure err) eff
              else eff\<lparr>reenqueue := reenqueue eff @ [tp]\<rparr>)
       (no_effects\<lparr>metadata_updates := (if invalid_metadata p err then 1 else 0)\<rparr>)
       batches"

text \<open>The branch \<^verbatim>\<open>request.required_acks == 0\<close>: every batch is marked done.\<close>

definition handle_noacks :: "(topic_partition \<times> message_batch) list \<Rightarrow> produce_effects" where
  "handle_noacks batches = no_effects\<lparr>batch_calls := map (\<lambda>(tp, batch). (tp, DoneNoack)) batches\<rparr>"

text \<open>
  What a run of \<^verbatim>\<open>_send_produce_req\<close> leaves: the calls made on the batches, those of
  \<^verbatim>\<open>reenqueue\<close> at their end, the backoff slept before them if any, and the number
  of metadata updates forced.
\<close>

record produce_outcome =
  calls :: "(topic_partition \<times> batch_call) list"
  backoff_slept :: "real option"
  forced_updates :: nat

text \<open>
  \<^verbatim>\<open>_send_produce_req(node_id, batches)\<close>, given what sending the request gave and the
  clock when the answer is handled. \<^verbatim>\<open>batches\<close> is the dictionary in its order.
  The method ends by removing the node and the partitions from
  \<^verbatim>\<open>self._in_flight\<close> and \<^verbatim>\<open>self._muted_partitions\<close>;
  \<^verbatim>\<open>set.remove\<close> raises when the element is missing. No other attribute of the
  producer is assigned, and no method of the transaction manager is called.
\<close>

definition send_produce_req ::
  "producer \<Rightarrow> real \<Rightarrow> node_id \<Rightarrow> (topic_partition \<times> message_batch) list \<Rightarrow> send_result \<Rightarrow>
   py_exception + (producer \<times> produce_outcome)" where
  "send_produce_req p now node batches sent =
     (let eff = (case sent of
                   SendRaised err \<Rightarrow> handle_send_error p now batches err
                 | SendReturned response \<Rightarrow>
                     if acks p = 0 then handle_noacks batches
                     else handle_response p now batches response);
          outcome = \<lparr>calls = batch_calls eff @ map (\<lambda>tp. (tp, Reenqueue)) (reenqueue eff),
                     backoff_slept = (if reenqueue eff \<noteq> [] then Some (retry_backoff p) else None),
                     forced_updates = metadata_updates eff\<rparr>
      in if node \<notin> in_flight p then Inl KeyError
         else if \<not> set (map fst batches) \<subseteq> muted_partitions p then Inl KeyError
         else Inr (p\<lparr>in_flight := in_flight p - {node},
                       muted_partitions := muted_partitions p - set (map fst batches)\<rparr>,
                   outcome))"


section \<open>Sending a record\<close>

text \<open>
  \<^verbatim>\<open>self.client.api_version\<close> is a tuple of numbers, and Python orders tuples
  lexicographically: \<^verbatim>\<open>tuple_le a b\<close> is \<^verbatim>\<open>a <= b\<close>.
\<close>

fun tuple_le :: "nat list \<Rightarrow> nat list \<Rightarrow> bool" where
  "tuple_le [] ys = True"
| "tuple_le (x # xs) [] = False"
| "tuple_le (x # xs) (y # ys) = (x < y \<or> (x = y \<and> tuple_le xs ys))"

text \<open>\<^verbatim>\<open>len\<close> of a key or value that is not None; None adds nothing to the size.\<close>

definition bytes_len :: "bytes option \<Rightarrow> int" where
  "bytes_len b = (case b of None \<Rightarrow> 0 | Some bs \<Rightarrow> int (length bs))"

text \<open>
  \<^verbatim>\<open>_serialize(topic, key, value)\<close>. A serializer that is configured is called on the
  key or value as it is, None included.
\<close>

definition serialize ::
  "producer \<Rightarrow> string \<Rightarrow> bytes option \<Rightarrow> bytes option \<Rightarrow>
   py_exception + (bytes option \<times> bytes option)" where
  "serialize p topic key val =
     (let serialized_key = (case key_serializer p of Some f \<Rightarrow> f key | None \<Rightarrow> key);
          serialized_value = (case value_serializer p of Some f \<Rightarrow> f val | None \<Rightarrow> val);
          message_size = record_overhead p (producer_magic p) + bytes_len serialized_key
                           + bytes_len serialized_value
      in if message_size > max_request_size p
         then Inl (KafkaError MessageSizeTooLargeError)
         else Inr (serialized_key, serialized_value))"

text \<open>
  \<^verbatim>\<open>_partition(topic, partition, key, value, serialized_key, serialized_value)\<close>. The
  metadata's partitions of a topic are indices, so an explicit partition is among them when
  it is not negative and its index is.
\<close>

definition partition_m ::
  "producer \<Rightarrow> string \<Rightarrow> int option \<Rightarrow> bytes option \<Rightarrow> bytes option \<Rightarrow> bytes option \<Rightarrow>
   bytes option \<Rightarrow> py_exception + int" where
  "partition_m p topic part key val serialized_key serialized_value =
     (case part of
        Some q \<Rightarrow>
          if \<not> 0 \<le> q then Inl (AssertionError [])
          else if nat q \<notin> set (partitions_for_topic p topic)
            then Inl (AssertionError ''Unrecognized partition'')
          else Inr q
      | None \<Rightarrow>
          Inr (partitioner p serialized_key (partitions_for_topic p topic)
                 (available_partitions_for_topic p topic)))"

text \<open>
  The condition of the guard in \<^verbatim>\<open>send\<close> and \<^verbatim>\<open>send_batch\<close>:
  \<^verbatim>\<open>self._txn_manager is not None and self._txn_manager.needs_transaction_commit()\<close>,
  where the result of the call is read as a Python condition (None is false).
\<close>

definition transaction_committing :: "producer \<Rightarrow> bool" where
  "transaction_committing p =
     (case txn_manager p of
        None \<Rightarrow> False
      | Some t \<Rightarrow>
          (case needs_transaction_commit t of None \<Rightarrow> False | Some r \<Rightarrow> result_truthy p r))"

text \<open>
  The call on the accumulator that \<^verbatim>\<open>send\<close> or \<^verbatim>\<open>send_batch\<close> ends with:
  \<^verbatim>\<open>add_message(tp, key_bytes, value_bytes, timeout, timestamp_ms=...)\<close> or
  \<^verbatim>\<open>add_batch(batch, tp, timeout)\<close>.
\<close>

datatype accumulator_call =
    AddMessage topic_partition "bytes option" "bytes option" real "int option"
  | AddBatch bytes topic_partition real

text \<open>
  \<^verbatim>\<open>send(topic, value, key, partition, timestamp_ms)\<close>, given the client's API version
  and what \<^verbatim>\<open>self.client._wait_on_metadata(topic)\<close> raised, if anything. The result is
  the exception raised before the accumulator is reached, or the call made on it.
\<close>

definition send ::
  "producer \<Rightarrow> nat list \<Rightarrow> py_exception option \<Rightarrow> string \<Rightarrow> bytes option \<Rightarrow> bytes option \<Rightarrow>
   int option \<Rightarrow> int option \<Rightarrow> py_exception + accumulator_call" where
  "send p api_version metadata_raised topic val key part timestamp_ms =
     (if \<not> (val \<noteq> None \<or> tuple_le [0, 8, 1] api_version)
        then Inl (AssertionError ''Null messages require kafka >= 0.8.1'')
      else if val = None \<and> key = None
        then Inl (AssertionError ''Need at least one: key or value'')
      else case metadata_raised of
        Some exn \<Rightarrow> Inl exn
      | None \<Rightarrow>
          if transaction_committing p then Inl (AssertionError [])
          else case serialize p topic key val of
            Inl exn \<Rightarrow> Inl exn
          | Inr (key_bytes, value_bytes) \<Rightarrow>
              (case partition_m p topic part key val key_bytes value_bytes of
                 Inl exn \<Rightarrow> Inl exn
               | Inr q \<Rightarrow>
                   Inr (AddMessage (topic, q) key_bytes value_bytes
                          (real_of_int (request_timeout_ms p) / 1000) timestamp_ms)))"

text \<open>\<^verbatim>\<open>send_batch(batch, topic, partition=...)\<close>, with the batch builder as its bytes.\<close>

definition send_batch ::
  "producer \<Rightarrow> py_exception option \<Rightarrow> bytes \<Rightarrow> string \<Rightarrow> int option \<Rightarrow>
   py_exception + accumulator_call" where
  "send_batch p metadata_raised batch topic part =
     (case metadata_raised of
        Some exn \<Rightarrow> Inl exn
      | None \<Rightarrow>
          (case partition_m p topic part None None None None of
             Inl exn \<Rightarrow> Inl exn
           | Inr q \<Rightarrow>
               if transaction_committing p then Inl (AssertionError [])
               else Inr (AddBatch batch (topic, q) (real_of_int (request_timeout_ms p) / 1000))))"

section \<open>Transactional requests\<close>

text \<open>\<^verbatim>\<open>BACKOFF_OVERRIDE = 0.02\<close>, in seconds as \<^verbatim>\<open>self._retry_backoff\<close> is.\<close>

definition BACKOFF_OVERRIDE :: real where
  "BACKOFF_OVERRIDE = 0.02"

text \<open>
  The request a transactional sub-task is for: the four coroutines
  \<^verbatim>\<open>_maybe_do_transactional_request\<close> can start.
\<close>

datatype txn_request =
    AddPartitionsToTxn "topic_partition set"
  | AddOffsetsToTxn string
  | TxnOffsetCommit "(topic_partition \<times> int \<times> string) list" string
  | TxnCommit transaction_result

text \<open>
  \<^verbatim>\<open>_maybe_do_transactional_request()\<close>: the sub-task it starts, or None when the
  transaction manager asks for nothing.
\<close>

definition maybe_do_transactional_request :: "transaction_manager \<Rightarrow> txn_request option" where
  "maybe_do_transactional_request t =
     (let tps = partitions_to_add t
      in if tps \<noteq> {} then Some (AddPartitionsToTxn tps)
         else case consumer_group_to_add t of
           Some group_id \<Rightarrow> Some (AddOffsetsToTxn group_id)
         | None \<Rightarrow>
             (case offsets_to_commit t of
                Some (offsets, group_id) \<Rightarrow> Some (TxnOffsetCommit offsets group_id)
              | None \<Rightarrow>
                  (case needs_transaction_commit t of
                     Some commit_result \<Rightarrow> Some (TxnCommit commit_result)
                   | None \<Rightarrow> None)))"

text \<open>
  What a transactional sub-task does besides changing the transaction manager: it waits for
  the accumulator's \<^verbatim>\<open>flush_for_commit()\<close>, looks the coordinator up, sends a
  request to it, drops the cached coordinator (\<^verbatim>\<open>_coordinator_dead\<close>), and sleeps.
\<close>

datatype txn_action =
    FlushForCommit
  | FindCoordinator
  | SendEndTxnRequest transaction_result
  | SendAddPartitionsToTxnRequest "topic_partition set"
  | CoordinatorDead
  | Sleep real

text \<open>
  How a sub-task ends: what it did, the producer it leaves, and the exception it raised if
  any.
\<close>

record txn_task_result =
  actions :: "txn_action list"
  producer_after :: producer
  raised :: "py_exception option"

text \<open>
  \<^verbatim>\<open>_do_txn_commit(commit_result)\<close>, given what sending the EndTxnRequest gave: the
  \<^verbatim>\<open>KafkaError\<close> raised, or the error code of the response. The waits for the flush and
  for the coordinator are taken to return.
\<close>

definition do_txn_commit ::
  "producer \<Rightarrow> transaction_result \<Rightarrow> kafka_error + int \<Rightarrow> txn_task_result" where
  "do_txn_commit p commit_result sent =
     (case txn_manager p of
        None \<Rightarrow> \<lparr>actions = [FlushForCommit], producer_after = p, raised = Some AttributeError\<rparr>
      | Some t \<Rightarrow>
          if is_empty_transaction t
          then \<lparr>actions = [FlushForCommit],
                producer_after = p\<lparr>txn_manager := Some (complete_transaction t)\<rparr>,
                raised = None\<rparr>
          else
            let sent_actions = [FlushForCommit, FindCoordinator, SendEndTxnRequest commit_result]
            in case sent of
              Inl err \<Rightarrow>
                \<lparr>actions = sent_actions @ [Sleep (retry_backoff p)], producer_after = p,
                 raised = None\<rparr>
            | Inr error_code \<Rightarrow>
                let error_type = for_code p error_code
                in if error_type = NoError
                   then \<lparr>actions = sent_actions,
                         producer_after = p\<lparr>txn_manager := Some (complete_transaction t)\<rparr>,
                         raised = None\<rparr>
                   else if error_type = CoordinatorNotAvailableError \<or>
                           error_type = NotCoordinatorError
                   then \<lparr>actions = sent_actions @ [CoordinatorDead, Sleep (retry_backoff p)],
                         producer_after = p, raised = None\<rparr>
                   else if error_type = CoordinatorLoadInProgressError \<or>
                           error_type = ConcurrentTransactions
                   then \<lparr>actions = sent_actions @ [Sleep (retry_backoff p)],
                         producer_after = p, raised = None\<rparr>
                   else if error_type = InvalidProducerEpoch
                   then \<lparr>actions = sent_actions, producer_after = p,
                         raised = Some (KafkaError ProducerFenced)\<rparr>
                   else if error_type = InvalidTxnState
                   then \<lparr>actions = sent_actions, producer_after = p,
                         raised = Some (KafkaError error_type)\<rparr>
                   else \<lparr>actions = sent_actions, producer_after = p,
                         raised = Some (KafkaError error_type)\<rparr>)"

text \<open>
  The loops of \<^verbatim>\<open>_do_add_partitions_to_txn\<close> over \<^verbatim>\<open>resp.errors\<close>, on the
  entries in the order the two loops visit them, with the local
  \<^verbatim>\<open>retry_backoff\<close> and the actions so far. The first entry with NoError marks its
  partition added and returns; an entry the code does not retry raises; when the entries
  run out the sub-task sleeps \<^verbatim>\<open>retry_backoff\<close>.
\<close>

fun add_partitions_entries ::
  "producer \<Rightarrow> transaction_manager \<Rightarrow> real \<Rightarrow> txn_action list \<Rightarrow>
   (topic_partition \<times> int) list \<Rightarrow> txn_task_result" where
  "add_partitions_entries p t backoff acts [] =
     \<lparr>actions = acts @ [Sleep backoff], producer_after = p, raised = None\<rparr>"
| "add_partitions_entries p t backoff acts ((tp, error_code) # rest) =
     (let error_type = for_code p error_code
      in if error_type = NoError
         then \<lparr>actions = acts, producer_after = p\<lparr>txn_manager := Some (partition_added tp t)\<rparr>,
               raised = None\<rparr>
         else if error_type = CoordinatorNotAvailableError \<or> error_type = NotCoordinatorError
         then add_partitions_entries p t backoff (acts @ [CoordinatorDead]) rest
         else if error_type = ConcurrentTransactions
         then add_partitions_entries p t
                (if txn_partitions t = {} then BACKOFF_OVERRIDE else backoff) acts rest
         else if error_type = CoordinatorLoadInProgressError \<or>
                 error_type = UnknownTopicOrPartitionError
         then add_partitions_entries p t backoff acts rest
         else if error_type = InvalidProducerEpoch
         then \<lparr>actions = acts, producer_after = p, raised = Some (KafkaError ProducerFenced)\<rparr>
         else if error_type = InvalidProducerIdMapping \<or> error_type = InvalidTxnState
         then \<lparr>actions = acts, producer_after = p, raised = Some (KafkaError error_type)\<rparr>
         else \<lparr>actions = acts, producer_after = p, raised = Some (KafkaError error_type)\<rparr>)"

text \<open>
  The entries of \<^verbatim>\<open>resp.errors\<close>, a list of
  \<^verbatim>\<open>(topic, [(partition, error_code), ...])\<close>, in the order of the nested loops.
\<close>

definition response_entries ::
  "(string \<times> (int \<times> int) list) list \<Rightarrow> (topic_partition \<times> int) list" where
  "response_entries errors =
     concat (map (\<lambda>(topic, partitions).
                    map (\<lambda>(partition_id, error_code). ((topic, partition_id), error_code))
                      partitions)
               errors)"

text \<open>
  \<^verbatim>\<open>_do_add_partitions_to_txn(tps)\<close>, given what sending the request gave: the
  \<^verbatim>\<open>KafkaError\<close> raised, or \<^verbatim>\<open>resp.errors\<close>.
\<close>

definition do_add_partitions_to_txn ::
  "producer \<Rightarrow> topic_partition set \<Rightarrow> kafka_error + (string \<times> (int \<times> int) list) list \<Rightarrow>
   txn_task_result" where
  "do_add_partitions_to_txn p tps sent =
     (case txn_manager p of
        None \<Rightarrow> \<lparr>actions = [], producer_after = p, raised = Some AttributeError\<rparr>
      | Some t \<Rightarrow>
          let sent_actions = [FindCoordinator, SendAddPartitionsToTxnRequest tps]
          in case sent of
            Inl err \<Rightarrow>
              \<lparr>actions = sent_actions @ [Sleep (retry_backoff p)], producer_after = p,
               raised = None\<rparr>
          | Inr errors \<Rightarrow>
              add_partitions_entries p t (retry_backoff p) sent_actions
                (response_entries errors))"

section \<open>The sender loop\<close>

subsection \<open>Draining the accumulator\<close>

text \<open>
  Modelled from the spec: the accumulator's state, a queue of batches for each partition
  (oldest first), in the order of the partitions. The message accumulator is not among the
  sources.
\<close>

type_synonym accumulator = "(topic_partition \<times> message_batch list) list"

text \<open>
  The batches drained for the nodes: the dictionary from node to the dictionary from
  partition to batch that \<^verbatim>\<open>drain_by_nodes\<close> returns, as a list of its items.
\<close>

type_synonym node_batches = "(node_id \<times> (topic_partition \<times> message_batch) list) list"

text \<open>Modelled from the spec: \<^verbatim>\<open>nodes[leader][tp] = batch\<close> on that dictionary.\<close>

fun add_to_node ::
  "node_id \<Rightarrow> topic_partition \<times> message_batch \<Rightarrow> node_batches \<Rightarrow> node_batches" where
  "add_to_node node entry [] = [(node, [entry])]"
| "add_to_node node entry ((n, entries) # rest) =
     (if n = node then (n, entries @ [entry]) # rest
      else (n, entries) # add_to_node node entry rest)"

text \<open>
  Modelled from the spec: the loop of \<^verbatim>\<open>drain_by_nodes\<close> over the partitions, given
  the leader of each partition in the cluster metadata (None when it is not known). A
  partition is drained when it is not muted, its leader is known and is not among the nodes
  to ignore, and its oldest batch is full or has lingered long enough; a partition whose
  leader is not known sets the flag and is skipped.
\<close>

fun drain_partitions ::
  "(topic_partition \<Rightarrow> node_id option) \<Rightarrow> node_id set \<Rightarrow> topic_partition set \<Rightarrow> accumulator \<Rightarrow>
   node_batches \<times> bool \<Rightarrow> node_batches \<times> bool" where
  "drain_partitions leader ignore_nodes muted [] drained = drained"
| "drain_partitions leader ignore_nodes muted ((tp, queue) # rest) (nodes, unknown_leaders) =
     (if tp \<in> muted then drain_partitions leader ignore_nodes muted rest (nodes, unknown_leaders)
      else case leader tp of
        None \<Rightarrow> drain_partitions leader ignore_nodes muted rest (nodes, True)
      | Some node \<Rightarrow>
          if node \<in> ignore_nodes
          then drain_partitions leader ignore_nodes muted rest (nodes, unknown_leaders)
          else (case queue of
                  [] \<Rightarrow> drain_partitions leader ignore_nodes muted rest (nodes, unknown_leaders)
                | batch # later \<Rightarrow>
                    if drainable batch
                    then drain_partitions leader ignore_nodes muted rest
                           (add_to_node node (tp, batch) nodes, unknown_leaders)
                    else drain_partitions leader ignore_nodes muted rest
                           (nodes, unknown_leaders)))"

text \<open>
  Modelled from the spec: \<^verbatim>\<open>drain_by_nodes(ignore_nodes, muted_partitions)\<close>, which
  returns the batches by node and whether a partition without a known leader was met.
\<close>

definition drain_by_nodes ::
  "(topic_partition \<Rightarrow> node_id option) \<Rightarrow> accumulator \<Rightarrow> node_id set \<Rightarrow> topic_partition set \<Rightarrow>
   node_batches \<times> bool" where
  "drain_by_nodes leader acc ignore_nodes muted =
     drain_partitions leader ignore_nodes muted acc ([], False)"

subsection \<open>One round of the loop\<close>

text \<open>
  The state of \<^verbatim>\<open>_sender_routine\<close>: the producer, with \<^verbatim>\<open>self._in_flight\<close>,
  \<^verbatim>\<open>self._muted_partitions\<close> and the transaction manager; the runs of
  \<^verbatim>\<open>_send_produce_req\<close> that have been started and have not finished, each with its node
  and batches; the local variable \<^verbatim>\<open>txn_task\<close>, which names the transactional sub-task
  started last (sub-tasks are numbered as they are started); and the transactional sub-tasks
  that have been started and have not finished, each with its request. A sub-task is
  \<^verbatim>\<open>done()\<close> when it is no longer among these.
\<close>

record sender_state =
  sender_producer :: producer
  produce_tasks :: node_batches
  txn_task :: "nat option"
  txn_running :: "(nat \<times> txn_request) list"
  txn_started :: nat

text \<open>Whether the sub-task with the given number has finished: \<^verbatim>\<open>txn_task.done()\<close>.\<close>

definition task_done :: "sender_state \<Rightarrow> nat \<Rightarrow> bool" where
  "task_done s i = (i \<notin> fst ` set (txn_running s))"

text \<open>
  The first part of a round, for a producer whose transaction manager has a transactional
  id: when \<^verbatim>\<open>txn_task\<close> is None or done, \<^verbatim>\<open>_maybe_do_transactional_request()\<close>
  starts the next sub-task or returns None, and \<^verbatim>\<open>txn_task\<close> is its result.
\<close>

definition maybe_start_txn_task :: "transaction_manager \<Rightarrow> sender_state \<Rightarrow> sender_state" where
  "maybe_start_txn_task t s =
     (if (case txn_task s of None \<Rightarrow> True | Some i \<Rightarrow> task_done s i)
      then (case maybe_do_transactional_request t of
              Some request \<Rightarrow>
                s\<lparr>txn_task := Some (txn_started s),
                  txn_running := txn_running s @ [(txn_started s, request)],
                  txn_started := Suc (txn_started s)\<rparr>
            | None \<Rightarrow> s\<lparr>txn_task := None\<rparr>)
      else s)"

text \<open>
  The muted partitions a round passes to \<^verbatim>\<open>drain_by_nodes\<close>:
  \<^verbatim>\<open>self._muted_partitions\<close>, joined with \<^verbatim>\<open>txn_manager.partitions_to_add()\<close>
  when the producer has a transaction manager with a transactional id.
\<close>

definition sender_muted :: "producer \<Rightarrow> topic_partition set" where
  "sender_muted p =
     (case txn_manager p of
        None \<Rightarrow> muted_partitions p
      | Some t \<Rightarrow>
          if transactional_id t \<noteq> None then muted_partitions p \<union> partitions_to_add t
          else muted_partitions p)"

text \<open>
  The body of the loop over \<^verbatim>\<open>batches.items()\<close>: a run of
  \<^verbatim>\<open>_send_produce_req\<close> is started for the node, the node is added to
  \<^verbatim>\<open>self._in_flight\<close> and the partitions of its batches to
  \<^verbatim>\<open>self._muted_partitions\<close>.
\<close>

definition start_produce_task ::
  "sender_state \<Rightarrow> node_id \<times> (topic_partition \<times> message_batch) list \<Rightarrow> sender_state" where
  "start_produce_task s task =
     s\<lparr>sender_producer :=
         (sender_producer s)
           \<lparr>in_flight := insert (fst task) (in_flight (sender_producer s)),
            muted_partitions := muted_partitions (sender_producer s) \<union> set (map fst (snd task))\<rparr>,
       produce_tasks := produce_tasks s @ [task]\<rparr>"

text \<open>
  One round of the loop of \<^verbatim>\<open>_sender_routine\<close>, from the transactional sub-task to the
  produce tasks, given the cluster's leaders and the accumulator as they are in this round.
  No other coroutine runs during these lines.
\<close>

definition sender_iteration ::
  "(topic_partition \<Rightarrow> node_id option) \<Rightarrow> accumulator \<Rightarrow> sender_state \<Rightarrow> sender_state" where
  "sender_iteration leader acc s =
     (let p = sender_producer s;
          s1 = (case txn_manager p of
                  None \<Rightarrow> s
                | Some t \<Rightarrow> if transactional_id t \<noteq> None then maybe_start_txn_task t s else s);
          (batches, unknown_leaders_exist) =
             drain_by_nodes leader acc (in_flight p) (sender_muted p)
      in foldl start_produce_task s1 batches)"

text \<open>
  The state in which \<^verbatim>\<open>_sender_routine\<close> starts: \<^verbatim>\<open>__init__\<close> has made
  \<^verbatim>\<open>self._in_flight\<close> and \<^verbatim>\<open>self._muted_partitions\<close> empty, and no task has been
  started.
\<close>

definition initial_sender_state :: "producer \<Rightarrow> sender_state" where
  "initial_sender_state p =
     \<lparr>sender_producer = p\<lparr>in_flight := {}, muted_partitions := {}\<rparr>, produce_tasks = [],
      txn_task = None, txn_running = [], txn_started = 0\<rparr>"

text \<open>
  The steps of the sender and its tasks: a round of the loop; the end of a run of
  \<^verbatim>\<open>_send_produce_req\<close>, which takes its node out of \<^verbatim>\<open>self._in_flight\<close>; the end
  of a transactional sub-task, which may have changed the transaction manager; and a call of
  the user that changes the transaction manager.
\<close>

inductive sender_step :: "sender_state \<Rightarrow> sender_state \<Rightarrow> bool" where
  round: "sender_step s (sender_iteration leader acc s)"
| produce_finished:
    "(node, batches) \<in> set (produce_tasks s) \<Longrightarrow>
     send_produce_req (sender_producer s) now node batches sent = Inr (p', outcome) \<Longrightarrow>
     sender_step s
       (s\<lparr>sender_producer := p', produce_tasks := remove1 (node, batches) (produce_tasks s)\<rparr>)"
| txn_finished:
    "(i, request) \<in> set (txn_running s) \<Longrightarrow>
     txn_manager (sender_producer s) = Some t \<Longrightarrow>
     sender_step s
       (s\<lparr>sender_producer := (sender_producer s)\<lparr>txn_manager := Some t'\<rparr>,
          txn_running := filter (\<lambda>task. fst task \<noteq> i) (txn_running s)\<rparr>)"
| user_call:
    "txn_manager (sender_producer s) = Some t \<Longrightarrow>
     sender_step s (s\<lparr>sender_producer := (sender_producer s)\<lparr>txn_manager := Some t'\<rparr>\<rparr>)"

text \<open>The states the sender of a producer can be in.\<close>

inductive reachable :: "producer \<Rightarrow> sender_state \<Rightarrow> bool" where
  start: "reachable p (initial_sender_state p)"
| step: "reachable p s \<Longrightarrow> sender_step s s' \<Longrightarrow> reachable p s'"

subsection \<open>What the loop maintains\<close>

text \<open>The partitions of the batches drained for the nodes.\<close>

definition drained_partitions :: "node_batches \<Rightarrow> topic_partition list" where
  "drained_partitions nodes = concat (map (\<lambda>task. map fst (snd task)) nodes)"

text \<open>
  What \<^verbatim>\<open>drain_by_nodes\<close> promises of its result: one entry for a node, no node that
  was to be ignored, and no muted partition.
\<close>

definition drained_ok :: "node_id set \<Rightarrow> topic_partition set \<Rightarrow> node_batches \<Rightarrow> bool" where
  "drained_ok ignore_nodes muted nodes \<longleftrightarrow>
     distinct (map fst nodes) \<and> set (map fst nodes) \<inter> ignore_nodes = {} \<and>
     set (drained_partitions nodes) \<inter> muted = {}"

text \<open>
  The invariant of the sender: the unfinished runs of \<^verbatim>\<open>_send_produce_req\<close> are for
  different nodes, which are the nodes of \<^verbatim>\<open>self._in_flight\<close>; and an unfinished
  transactional sub-task is the one \<^verbatim>\<open>txn_task\<close> names.
\<close>

definition sender_invariant :: "sender_state \<Rightarrow> bool" where
  "sender_invariant s \<longleftrightarrow>
     distinct (map fst (produce_tasks s)) \<and>
     set (map fst (produce_tasks s)) = in_flight (sender_producer s) \<and>
     distinct (map fst (txn_running s)) \<and>
     set (map fst (txn_running s)) \<subseteq> set_option (txn_task s)"

text \<open>
  The error classes \<^verbatim>\<open>_do_add_partitions_to_txn\<close> answers by going on and backing
  off: the branches of its loop that neither return nor raise.
\<close>

definition retried :: "kafka_error \<Rightarrow> bool" where
  "retried e =
     (e = CoordinatorNotAvailableError \<or> e = NotCoordinatorError \<or>
      e = ConcurrentTransactions \<or> e = CoordinatorLoadInProgressError \<or>
      e = UnknownTopicOrPartitionError)"

section \<open>Example configurations\<close>

text \<open>
  Concrete values at which the theorems below are evaluated. The error table follows the
  broker protocol's codes and the retriable errors are those section 7 of the spec lists;
  the record overhead is that of the legacy formats (14 bytes for magic 0, 22 for magic 1).
\<close>

definition example_for_code :: "int \<Rightarrow> kafka_error" where
  "example_for_code c =
     (if c = 0 then NoError
      else if c = 3 then UnknownTopicOrPartitionError
      else if c = 5 then LeaderNotAvailableError
      else if c = 6 then NotLeaderForPartitionError
      else if c = 7 then RequestTimedOutError
      else if c = 10 then MessageSizeTooLargeError
      else if c = 14 then CoordinatorLoadInProgressError
      else if c = 15 then CoordinatorNotAvailableError
      else if c = 16 then NotCoordinatorError
      else if c = 46 then DuplicateSequenceNumber
      else if c = 47 then InvalidProducerEpoch
      else if c = 48 then InvalidTxnState
      else if c = 49 then InvalidProducerIdMapping
      else if c = 51 then ConcurrentTransactions
      else OtherKafkaError c)"

definition example_retriable :: "kafka_error \<Rightarrow> bool" where
  "example_retriable e =
     (e = LeaderNotAvailableError \<or> e = NotLeaderForPartitionError \<or>
      e = RequestTimedOutError \<or> e = UnknownTopicOrPartitionError)"

definition example_producer :: producer where
  "example_producer =
     \<lparr>txn_manager = None, acks = 1, key_serializer = None, value_serializer = None,
      partitioner = (\<lambda>key_bytes all_partitions available. int (hd (all_partitions @ [0]))),
      max_request_size = 1048576, request_timeout_ms = 40000, retry_backoff = 0.1,
      producer_magic = 0, in_flight = {1}, muted_partitions = {(''t'', 0)},
      retriable = example_retriable, invalid_metadata = example_retriable,
      for_code = example_for_code,
      record_overhead = (\<lambda>magic. if magic = 0 then 14 else 22),
      partitions_for_topic = (\<lambda>topic. [0, 1, 2]),
      available_partitions_for_topic = (\<lambda>topic. [0, 1, 2]),
      result_truthy = (\<lambda>r. r = COMMIT)\<rparr>"

definition example_txn_manager :: transaction_manager where
  "example_txn_manager =
     \<lparr>transactional_id = Some ''txn'', producer_id = 7, producer_epoch = 0,
      txn_status = IN_TRANSACTION, txn_partitions = {(''t'', 0)}, pending_partitions = {},
      pending_groups = [], pending_offsets = [], txn_consumer_group = None\<rparr>"

definition example_batch :: message_batch where
  "example_batch = \<lparr>ctime = 0, ttl = 40, drainable = True\<rparr>"

definition example_txn_producer :: producer where
  "example_txn_producer = example_producer\<lparr>txn_manager := Some example_txn_manager, acks := - 1\<rparr>"

definition example_committing_producer :: producer where
  "example_committing_producer =
     example_txn_producer\<lparr>txn_manager := Some (example_txn_manager\<lparr>txn_status := COMMITTING\<rparr>)\<rparr>"

definition example_small_producer :: producer where
  "example_small_producer = example_producer\<lparr>max_request_size := 20\<rparr>"

definition example_ending_producer :: producer where
  "example_ending_producer =
     example_txn_producer\<lparr>txn_manager :=
       Some (example_txn_manager\<lparr>txn_status := ABORTING, txn_partitions := {}\<rparr>)\<rparr>"

definition example_enlisting_producer :: producer where
  "example_enlisting_producer =
     example_txn_producer\<lparr>txn_manager :=
       Some (example_txn_manager\<lparr>txn_partitions := {}, pending_partitions := {(''t'', 0)}\<rparr>)\<rparr>"

definition example_accumulator :: accumulator where
  "example_accumulator = [((''t'', 0), [example_batch]), ((''t'', 1), [example_batch])]"

definition example_leader :: "topic_partition \<Rightarrow> node_id option" where
  "example_leader tp = Some 1"

section \<open>Verified properties\<close>

subsection \<open>Lists of batches\<close>



subsection \<open>A request that could not be sent\<close>





text \<open>
  An error reported for a partition in a response, other than the three the handler names:
  the batch is failed when \<^verbatim>\<open>_can_retry\<close> refuses, and put on the
  \<^verbatim>\<open>reenqueue\<close> list otherwise.
\<close>

lemma handle_partition_info_error:
  assumes "map_of batches (topic, part) = Some batch"
    and "for_code p code = error"
    and "error \<noteq> NoError" "error \<noteq> DuplicateSequenceNumber" "error \<noteq> InvalidProducerEpoch"
  shows "handle_partition_info p now v batches topic (part, code, off, ts) eff =
     (if can_retry p now error batch
      then eff\<lparr>reenqueue := reenqueue eff @ [(topic, part)],
               metadata_updates :=
                 (if invalid_metadata p error then Suc (metadata_updates eff)
                  else metadata_updates eff)\<rparr>
      else add_call (topic, part) (Failure error) eff)"
  using assms by (simp add: handle_partition_info_def Let_def)



subsection \<open>The answer to a produce request\<close>

text \<open>
  An entry that reports NoError or DuplicateSequenceNumber: the batch is marked done, and
  the handler goes on to the test of \<^verbatim>\<open>_can_retry\<close>, so that the batch is then
  failed with that error class or put on the \<^verbatim>\<open>reenqueue\<close> list, whatever the
  retriable flags are.
\<close>

lemma handle_partition_info_done:
  assumes "map_of batches (topic, part) = Some batch"
    and "for_code p code = error" and "error = NoError \<or> error = DuplicateSequenceNumber"
  shows "handle_partition_info p now v batches topic (part, code, off, ts) eff =
     (let done = add_call (topic, part) (Done off (if v < 2 then - 1 else ts)) eff
      in if can_retry p now error batch
         then done\<lparr>reenqueue := reenqueue done @ [(topic, part)],
                   metadata_updates :=
                     (if invalid_metadata p error then Suc (metadata_updates done)
                      else metadata_updates done)\<rparr>
         else add_call (topic, part) (Failure error) done)"
  using assms by (auto simp: handle_partition_info_def Let_def)

text \<open>
  C1. A batch whose partition reports NoError is resolved with
  \<^verbatim>\<open>done(offset, timestamp)\<close>, and so is one that reports DuplicateSequenceNumber;
  the claim adds that no failure and no re-enqueue follows. Evaluated on a response with
  one entry, the handler calls \<^verbatim>\<open>done\<close> and then \<^verbatim>\<open>failure\<close> on the same
  batch, with \<^verbatim>\<open>NoError()\<close> (and \<^verbatim>\<open>DuplicateSequenceNumber()\<close>) as the
  exception: the \<^verbatim>\<open>if\<close> chain that marks the batch done does not exclude the
  retry test that follows it.
\<close>

theorem done_is_followed_by_failure:
  "send_produce_req example_producer 10 1 [((''t'', 0), example_batch)]
     (SendReturned \<lparr>API_VERSION = 2, topics = [(''t'', [(0, 0, 5, 7)])]\<rparr>) =
   Inr (example_producer\<lparr>in_flight := {}, muted_partitions := {}\<rparr>,
        \<lparr>calls = [((''t'', 0), Done 5 7), ((''t'', 0), Failure NoError)],
         backoff_slept = None, forced_updates = 0\<rparr>) \<and>
   send_produce_req example_producer 10 1 [((''t'', 0), example_batch)]
     (SendReturned \<lparr>API_VERSION = 2, topics = [(''t'', [(0, 46, 5, 7)])]\<rparr>) =
   Inr (example_producer\<lparr>in_flight := {}, muted_partitions := {}\<rparr>,
        \<lparr>calls = [((''t'', 0), Done 5 7), ((''t'', 0), Failure DuplicateSequenceNumber)],
         backoff_slept = None, forced_updates = 0\<rparr>)"
  by (simp add: send_produce_req_def handle_response_def handle_partition_info_def
      example_producer_def example_batch_def can_retry_def expired_def add_call_def
      no_effects_def example_retriable_def example_for_code_def Let_def)

lemma send_produce_req_txn_manager:
  "send_produce_req p now node batches sent = Inr (p', outcome) \<Longrightarrow>
   txn_manager p' = txn_manager p"
  by (auto simp: send_produce_req_def Let_def split: if_splits)

text \<open>
  C4, as amended. When a produce response reports InvalidProducerEpoch for a partition,
  the batch of that partition is failed with ProducerFenced (the class is not retriable),
  and a run of \<^verbatim>\<open>_send_produce_req\<close> leaves the transaction manager as it was: the
  producer calls no method of it here, and has no transition to FENCED.
\<close>

theorem invalid_producer_epoch_fails_batch:
  assumes "for_code p code = InvalidProducerEpoch" and "\<not> retriable p ProducerFenced"
    and "map_of batches (topic, part) = Some batch"
    and "send_produce_req p now node batches sent = Inr (p', outcome)"
  shows "handle_partition_info p now v batches topic (part, code, off, ts) eff =
           add_call (topic, part) (Failure ProducerFenced) eff \<and>
         txn_manager p' = txn_manager p"
  using assms send_produce_req_txn_manager [OF assms(4)]
  by (simp add: handle_partition_info_def Let_def can_retry_def)

theorem invalid_producer_epoch_fails_batch_witness:
  "for_code example_txn_producer 47 = InvalidProducerEpoch \<and>
   \<not> retriable example_txn_producer ProducerFenced \<and>
   handle_partition_info example_txn_producer 10 3 [((''t'', 0), example_batch)] ''t''
     (0, 47, - 1, - 1) no_effects = add_call (''t'', 0) (Failure ProducerFenced) no_effects \<and>
   txn_manager (example_txn_producer\<lparr>in_flight := {}, muted_partitions := {}\<rparr>) =
     txn_manager example_txn_producer"
proof -
  let ?bs = "[((''t'', 0), example_batch)]"
  have c: "for_code example_txn_producer 47 = InvalidProducerEpoch"
    by (simp add: example_txn_producer_def example_producer_def example_for_code_def)
  have r: "\<not> retriable example_txn_producer ProducerFenced"
    by (simp add: example_txn_producer_def example_producer_def example_retriable_def)
  have m: "map_of ?bs (''t'', 0) = Some example_batch" by simp
  have s: "send_produce_req example_txn_producer 10 1 ?bs
      (SendReturned \<lparr>API_VERSION = 3, topics = [(''t'', [(0, 47, - 1, - 1)])]\<rparr>) =
    Inr (example_txn_producer\<lparr>in_flight := {}, muted_partitions := {}\<rparr>,
        \<lparr>calls = [((''t'', 0), Failure ProducerFenced)],
         backoff_slept = None, forced_updates = 0\<rparr>)"
    by (simp add: send_produce_req_def handle_response_def handle_partition_info_def
      example_txn_producer_def example_txn_manager_def
      example_producer_def example_batch_def can_retry_def expired_def add_call_def
      no_effects_def example_retriable_def example_for_code_def Let_def)
  show ?thesis
    using invalid_producer_epoch_fails_batch [OF c r m s, of 3 "- 1" "- 1" no_effects] c r
    by simp
qed

text \<open>
  C4 as the claim states it fails: a transactional producer in IN_TRANSACTION that receives
  InvalidProducerEpoch for its partition fails the batch and is still in IN_TRANSACTION
  afterwards, not in FENCED.
\<close>

theorem invalid_producer_epoch_does_not_fence:
  "send_produce_req example_txn_producer 10 1 [((''t'', 0), example_batch)]
     (SendReturned \<lparr>API_VERSION = 3, topics = [(''t'', [(0, 47, - 1, - 1)])]\<rparr>) =
   Inr (example_txn_producer\<lparr>in_flight := {}, muted_partitions := {}\<rparr>,
        \<lparr>calls = [((''t'', 0), Failure ProducerFenced)],
         backoff_slept = None, forced_updates = 0\<rparr>) \<and>
   map_option txn_status
     (txn_manager (example_txn_producer\<lparr>in_flight := {}, muted_partitions := {}\<rparr>)) =
     Some IN_TRANSACTION \<and>
   map_option txn_status
     (txn_manager (example_txn_producer\<lparr>in_flight := {}, muted_partitions := {}\<rparr>)) \<noteq>
     Some FENCED"
  by (simp add: send_produce_req_def handle_response_def handle_partition_info_def
      example_txn_producer_def example_txn_manager_def
      example_producer_def example_batch_def can_retry_def expired_def add_call_def
      no_effects_def example_retriable_def example_for_code_def Let_def)

subsection \<open>Sending while the transaction ends\<close>

text \<open>
  The guard of \<^verbatim>\<open>send\<close> and \<^verbatim>\<open>send_batch\<close> when
  \<^verbatim>\<open>needs_transaction_commit()\<close> is a true Python condition: neither call reaches
  the accumulator, and once the metadata wait has returned the exception is the
  \<^verbatim>\<open>AssertionError\<close> of a failed \<^verbatim>\<open>assert\<close>.
\<close>

theorem send_rejected_while_committing:
  assumes "txn_manager p = Some t" and "needs_transaction_commit t = Some r"
    and "result_truthy p r"
  shows "isl (send p v md topic val key part ts) \<and>
         isl (send_batch p md b topic part) \<and>
         (md = None \<longrightarrow>
            (\<exists>msg. send p v md topic val key part ts = Inl (AssertionError msg)) \<and>
            (\<exists>msg. send_batch p md b topic part = Inl (AssertionError msg)))"
proof -
  have c: "transaction_committing p"
    using assms by (simp add: transaction_committing_def)
  have 1: "isl (send p v md topic val key part ts)"
    using c by (auto simp: send_def split: option.splits)
  have 2: "isl (send_batch p md b topic part)"
    using c by (auto simp: send_batch_def split: option.splits sum.splits)
  have 3: "\<exists>msg. send p v None topic val key part ts = Inl (AssertionError msg)"
    using c by (auto simp: send_def)
  have 4: "\<exists>msg. send_batch p None b topic part = Inl (AssertionError msg)"
    using c by (auto simp: send_batch_def partition_m_def split: option.splits sum.splits)
  show ?thesis using 1 2 3 4 by blast
qed

theorem send_rejected_while_committing_witness:
  "txn_manager example_committing_producer =
     Some (example_txn_manager\<lparr>txn_status := COMMITTING\<rparr>) \<and>
   needs_transaction_commit (example_txn_manager\<lparr>txn_status := COMMITTING\<rparr>) = Some COMMIT \<and>
   result_truthy example_committing_producer COMMIT \<and>
   isl (send example_committing_producer [0, 11] None ''t'' (Some ''v'') None (Some 0) None) \<and>
   isl (send_batch example_committing_producer None ''b'' ''t'' (Some 0)) \<and>
   send example_committing_producer [0, 11] None ''t'' (Some ''v'') None (Some 0) None =
     Inl (AssertionError []) \<and>
   send_batch example_committing_producer None ''b'' ''t'' (Some 0) = Inl (AssertionError [])"
proof -
  have h1: "txn_manager example_committing_producer =
      Some (example_txn_manager\<lparr>txn_status := COMMITTING\<rparr>)"
    by (simp add: example_committing_producer_def)
  have h2: "needs_transaction_commit (example_txn_manager\<lparr>txn_status := COMMITTING\<rparr>) =
      Some COMMIT"
    by (simp add: needs_transaction_commit_def)
  have h3: "result_truthy example_committing_producer COMMIT"
    by (simp add: example_committing_producer_def example_txn_producer_def example_producer_def)
  have c: "transaction_committing example_committing_producer"
    using h1 h2 h3 by (simp add: transaction_committing_def)
  have ps: "partitions_for_topic example_committing_producer ''t'' = [0, 1, 2]"
    by (simp add: example_committing_producer_def example_txn_producer_def example_producer_def)
  have s: "send example_committing_producer [0, 11] None ''t'' (Some ''v'') None (Some 0) None =
      Inl (AssertionError [])"
    using c by (simp add: send_def)
  have sb: "send_batch example_committing_producer None ''b'' ''t'' (Some 0) =
      Inl (AssertionError [])"
    using c ps by (simp add: send_batch_def partition_m_def)
  show ?thesis
    using send_rejected_while_committing [OF h1 h2 h3, of "[0, 11]" None "''t''" "Some ''v''"
        None "Some 0" None "''b''"] h1 h2 h3 s sb
    by simp
qed

text \<open>
  C5. The claim is that \<^verbatim>\<open>send\<close> and \<^verbatim>\<open>send_batch\<close> are rejected while
  the transaction is COMMITTING or ABORTING. The guard reads the result of
  \<^verbatim>\<open>needs_transaction_commit()\<close> as a Python condition, and in ABORTING that result
  is \<^verbatim>\<open>TransactionResult.ABORT\<close>, the constant 0 of the transaction manager, which
  is a false condition. So in ABORTING the guard lets the call through: \<^verbatim>\<open>send\<close>
  serializes, chooses the partition and calls \<^verbatim>\<open>add_message\<close>, and
  \<^verbatim>\<open>send_batch\<close> calls \<^verbatim>\<open>add_batch\<close>, as they do when no transaction is
  ending. \<^verbatim>\<open>_maybe_do_transactional_request\<close> reads the same result with
  \<^verbatim>\<open>is not None\<close>, which holds for ABORT.
\<close>

theorem send_accepted_while_aborting:
  assumes "txn_manager p = Some t" and "txn_status t = ABORTING"
    and "\<not> result_truthy p ABORT"
  shows "needs_transaction_commit t = Some ABORT \<and>
         \<not> transaction_committing p \<and>
         (val \<noteq> None \<longrightarrow>
            send p v None topic val key part ts =
              (case serialize p topic key val of
                 Inl exn \<Rightarrow> Inl exn
               | Inr (key_bytes, value_bytes) \<Rightarrow>
                   (case partition_m p topic part key val key_bytes value_bytes of
                      Inl exn \<Rightarrow> Inl exn
                    | Inr q \<Rightarrow>
                        Inr (AddMessage (topic, q) key_bytes value_bytes
                               (real_of_int (request_timeout_ms p) / 1000) ts)))) \<and>
         send_batch p None b topic part =
           (case partition_m p topic part None None None None of
              Inl exn \<Rightarrow> Inl exn
            | Inr q \<Rightarrow> Inr (AddBatch b (topic, q) (real_of_int (request_timeout_ms p) / 1000)))"
proof -
  have n: "needs_transaction_commit t = Some ABORT"
    using assms(2) by (simp add: needs_transaction_commit_def)
  have c: "\<not> transaction_committing p"
    using assms(1,3) n by (simp add: transaction_committing_def)
  have sb: "send_batch p None b topic part =
           (case partition_m p topic part None None None None of
              Inl exn \<Rightarrow> Inl exn
            | Inr q \<Rightarrow> Inr (AddBatch b (topic, q) (real_of_int (request_timeout_ms p) / 1000)))"
    using c by (simp add: send_batch_def split: sum.splits)
  have sd: "val \<noteq> None \<longrightarrow>
            send p v None topic val key part ts =
              (case serialize p topic key val of
                 Inl exn \<Rightarrow> Inl exn
               | Inr (key_bytes, value_bytes) \<Rightarrow>
                   (case partition_m p topic part key val key_bytes value_bytes of
                      Inl exn \<Rightarrow> Inl exn
                    | Inr q \<Rightarrow>
                        Inr (AddMessage (topic, q) key_bytes value_bytes
                               (real_of_int (request_timeout_ms p) / 1000) ts)))"
    using c by (simp add: send_def)
  show ?thesis
    by (intro conjI n c sd sb)
qed

theorem send_accepted_while_aborting_witness:
  "txn_manager example_ending_producer =
     Some (example_txn_manager\<lparr>txn_status := ABORTING, txn_partitions := {}\<rparr>) \<and>
   txn_status (example_txn_manager\<lparr>txn_status := ABORTING, txn_partitions := {}\<rparr>) = ABORTING \<and>
   \<not> result_truthy example_ending_producer ABORT \<and>
   needs_transaction_commit (example_txn_manager\<lparr>txn_status := ABORTING, txn_partitions := {}\<rparr>) =
     Some ABORT \<and>
   send example_ending_producer [0, 11] None ''t'' (Some ''v'') None (Some 0) None =
     Inr (AddMessage (''t'', 0) None (Some ''v'') 40 None) \<and>
   send_batch example_ending_producer None ''b'' ''t'' (Some 0) =
     Inr (AddBatch ''b'' (''t'', 0) 40)"
proof -
  let ?t = "example_txn_manager\<lparr>txn_status := ABORTING, txn_partitions := {}\<rparr>"
  note ex = example_ending_producer_def example_txn_producer_def example_producer_def
  have h1: "txn_manager example_ending_producer = Some ?t" by (simp add: ex)
  have h2: "txn_status ?t = ABORTING" by simp
  have h3: "\<not> result_truthy example_ending_producer ABORT" by (simp add: ex)
  have s: "serialize example_ending_producer ''t'' None (Some ''v'') = Inr (None, Some ''v'')"
    by (simp add: ex serialize_def bytes_len_def)
  have q: "partition_m example_ending_producer ''t'' (Some 0) None (Some ''v'') None (Some ''v'') =
      Inr 0"
    "partition_m example_ending_producer ''t'' (Some 0) None None None None = Inr 0"
    by (simp_all add: ex partition_m_def)
  have r: "real_of_int (request_timeout_ms example_ending_producer) / 1000 = 40"
    by (simp add: ex)
  from send_accepted_while_aborting [OF h1 h2 h3, of "Some ''v''" "[0, 11]" "''t''" None
      "Some 0" None "''b''"]
  have "needs_transaction_commit ?t = Some ABORT"
    and "send example_ending_producer [0, 11] None ''t'' (Some ''v'') None (Some 0) None =
      Inr (AddMessage (''t'', 0) None (Some ''v'') 40 None)"
    and "send_batch example_ending_producer None ''b'' ''t'' (Some 0) =
      Inr (AddBatch ''b'' (''t'', 0) 40)"
    by (simp_all add: s q r)
  then show ?thesis by (intro conjI h1 h2 h3)
qed

subsection \<open>The size of a record\<close>

text \<open>
  C7. A record whose serialized key and value, with the record overhead of the producer's
  magic, make exactly \<^verbatim>\<open>max_request_size\<close> bytes passes \<^verbatim>\<open>_serialize\<close>, and
  \<^verbatim>\<open>send\<close> goes on to choose the partition and call the accumulator; with one byte
  more \<^verbatim>\<open>_serialize\<close> raises MessageSizeTooLargeError and \<^verbatim>\<open>send\<close> raises it
  without a call on the accumulator. Stated for a send that passes the checks before
  \<^verbatim>\<open>_serialize\<close>: a value is given, the metadata wait returned, and no transaction
  is ending.
\<close>

theorem message_size_boundary:
  assumes "sk = (case key_serializer p of Some f \<Rightarrow> f key | None \<Rightarrow> key)"
    and "sv = (case value_serializer p of Some f \<Rightarrow> f val | None \<Rightarrow> val)"
    and "message_size = record_overhead p (producer_magic p) + bytes_len sk + bytes_len sv"
    and "val \<noteq> None" and "\<not> transaction_committing p"
  shows "(message_size = max_request_size p \<longrightarrow>
            serialize p topic key val = Inr (sk, sv) \<and>
            send p v None topic val key part ts =
              (case partition_m p topic part key val sk sv of
                 Inl exn \<Rightarrow> Inl exn
               | Inr q \<Rightarrow>
                   Inr (AddMessage (topic, q) sk sv (real_of_int (request_timeout_ms p) / 1000)
                          ts))) \<and>
         (message_size = max_request_size p + 1 \<longrightarrow>
            serialize p topic key val = Inl (KafkaError MessageSizeTooLargeError) \<and>
            send p v None topic val key part ts = Inl (KafkaError MessageSizeTooLargeError))"
  using assms by (auto simp: serialize_def send_def Let_def)

theorem message_size_boundary_witness:
  "record_overhead example_small_producer (producer_magic example_small_producer)
     + bytes_len None + bytes_len (Some ''abcdef'') = max_request_size example_small_producer \<and>
   serialize example_small_producer ''t'' None (Some ''abcdef'') = Inr (None, Some ''abcdef'') \<and>
   send example_small_producer [0, 11] None ''t'' (Some ''abcdef'') None (Some 0) None =
     Inr (AddMessage (''t'', 0) None (Some ''abcdef'') 40 None) \<and>
   record_overhead example_small_producer (producer_magic example_small_producer)
     + bytes_len None + bytes_len (Some ''abcdefg'') =
     max_request_size example_small_producer + 1 \<and>
   serialize example_small_producer ''t'' None (Some ''abcdefg'') =
     Inl (KafkaError MessageSizeTooLargeError) \<and>
   send example_small_producer [0, 11] None ''t'' (Some ''abcdefg'') None (Some 0) None =
     Inl (KafkaError MessageSizeTooLargeError)"
proof -
  note ex = example_small_producer_def example_producer_def
  have k: "None = (case key_serializer example_small_producer of
      Some f \<Rightarrow> f None | None \<Rightarrow> None)"
    by (simp add: ex)
  have v6: "Some ''abcdef'' = (case value_serializer example_small_producer of
      Some f \<Rightarrow> f (Some ''abcdef'') | None \<Rightarrow> Some ''abcdef'')"
    by (simp add: ex)
  have v7: "Some ''abcdefg'' = (case value_serializer example_small_producer of
      Some f \<Rightarrow> f (Some ''abcdefg'') | None \<Rightarrow> Some ''abcdefg'')"
    by (simp add: ex)
  have s6: "max_request_size example_small_producer =
      record_overhead example_small_producer (producer_magic example_small_producer)
        + bytes_len None + bytes_len (Some ''abcdef'')"
    by (simp add: ex bytes_len_def)
  have s7: "max_request_size example_small_producer + 1 =
      record_overhead example_small_producer (producer_magic example_small_producer)
        + bytes_len None + bytes_len (Some ''abcdefg'')"
    by (simp add: ex bytes_len_def)
  have c: "\<not> transaction_committing example_small_producer"
    by (simp add: ex transaction_committing_def)
  have p: "partition_m example_small_producer ''t'' (Some 0) None (Some ''abcdef'') None
      (Some ''abcdef'') = Inr 0"
    by (simp add: ex partition_m_def)
  have t: "real_of_int (request_timeout_ms example_small_producer) / 1000 = 40"
    by (simp add: ex)
  show ?thesis
    using message_size_boundary [OF k v6 s6 _ c, of "''t''" "[0, 11]" "Some 0" None]
      message_size_boundary [OF k v7 s7 _ c, of "''t''" "[0, 11]" "Some 0" None] p t s6 s7
    by simp
qed

subsection \<open>The partition of a record\<close>

text \<open>
  C8. An explicit partition that is among the topic's partitions is returned unchanged by
  \<^verbatim>\<open>_partition\<close>, and \<^verbatim>\<open>send\<close> and \<^verbatim>\<open>send_batch\<close> hand it to the
  accumulator; one that is not makes the call fail on an \<^verbatim>\<open>assert\<close> (the message is
  'Unrecognized partition' unless the partition is negative), which is the failure the spec
  calls UnknownPartition. With an explicit partition the result does not depend on the
  partitioner; without one it is what the partitioner returns.
\<close>

theorem explicit_partition:
  "(q \<in> int ` set (partitions_for_topic p topic) \<longrightarrow>
      partition_m p topic (Some q) key val sk sv = Inr q \<and>
      (\<not> transaction_committing p \<longrightarrow>
         send_batch p None b topic (Some q) =
           Inr (AddBatch b (topic, q) (real_of_int (request_timeout_ms p) / 1000)))) \<and>
   (q \<notin> int ` set (partitions_for_topic p topic) \<longrightarrow>
      (\<exists>msg. partition_m p topic (Some q) key val sk sv = Inl (AssertionError msg)) \<and>
      (\<exists>msg. send_batch p None b topic (Some q) = Inl (AssertionError msg))) \<and>
   partition_m (p\<lparr>partitioner := f\<rparr>) topic (Some q) key val sk sv =
     partition_m p topic (Some q) key val sk sv \<and>
   partition_m p topic None key val sk sv =
     Inr (partitioner p sk (partitions_for_topic p topic)
            (available_partitions_for_topic p topic)) \<and>
   (val \<noteq> None \<and> \<not> transaction_committing p \<and> serialize p topic key val = Inr (sk, sv) \<longrightarrow>
      send p v None topic val key (Some q) ts =
        (if q \<in> int ` set (partitions_for_topic p topic)
         then Inr (AddMessage (topic, q) sk sv (real_of_int (request_timeout_ms p) / 1000) ts)
         else Inl (AssertionError
                (if 0 \<le> q then ''Unrecognized partition'' else []))))"
proof -
  have m: "q \<in> int ` set (partitions_for_topic p topic) \<longleftrightarrow>
      0 \<le> q \<and> nat q \<in> set (partitions_for_topic p topic)"
    by (metis image_iff int_nat_eq nat_int of_nat_0_le_iff)
  show ?thesis
    unfolding m by (auto simp: partition_m_def send_batch_def send_def)
qed

theorem explicit_partition_witness:
  "1 \<in> int ` set (partitions_for_topic example_producer ''t'') \<and>
   partition_m example_producer ''t'' (Some 1) None (Some ''v'') None (Some ''v'') = Inr 1 \<and>
   \<not> transaction_committing example_producer \<and>
   send_batch example_producer None ''b'' ''t'' (Some 1) = Inr (AddBatch ''b'' (''t'', 1) 40) \<and>
   7 \<notin> int ` set (partitions_for_topic example_producer ''t'') \<and>
   partition_m example_producer ''t'' (Some 7) None (Some ''v'') None (Some ''v'') =
     Inl (AssertionError ''Unrecognized partition'') \<and>
   send_batch example_producer None ''b'' ''t'' (Some 7) =
     Inl (AssertionError ''Unrecognized partition'')"
proof -
  have k1: "1 \<in> int ` set (partitions_for_topic example_producer ''t'')"
    by (simp add: example_producer_def)
  have k7: "7 \<notin> int ` set (partitions_for_topic example_producer ''t'')"
    by (simp add: example_producer_def)
  have c: "\<not> transaction_committing example_producer"
    by (simp add: example_producer_def transaction_committing_def)
  have t: "real_of_int (request_timeout_ms example_producer) / 1000 = 40"
    by (simp add: example_producer_def)
  have p7: "partition_m example_producer ''t'' (Some 7) None (Some ''v'') None (Some ''v'') =
      Inl (AssertionError ''Unrecognized partition'')"
    by (simp add: example_producer_def partition_m_def)
  have b7: "send_batch example_producer None ''b'' ''t'' (Some 7) =
      Inl (AssertionError ''Unrecognized partition'')"
    by (simp add: example_producer_def partition_m_def send_batch_def)
  show ?thesis
    using explicit_partition [of 1 example_producer "''t''" None "Some ''v''" None "Some ''v''"
        "''b''" "partitioner example_producer" "[0, 11]" None] k1 k7 c t p7 b7
    by simp
qed

subsection \<open>Ending an empty transaction\<close>

text \<open>
  C10. When a commit or an abort has been asked for and the transaction is empty, the
  commit sub-task waits for the flush, completes the transaction in the transaction manager,
  which is back in READY, and returns: it looks up no coordinator and sends no
  EndTxnRequest, whatever the network would have answered.
\<close>

theorem empty_transaction_completes_locally:
  assumes "txn_manager p = Some t" and "needs_transaction_commit t = Some commit_result"
    and "is_empty_transaction t"
  shows "do_txn_commit p commit_result sent =
           \<lparr>actions = [FlushForCommit],
            producer_after = p\<lparr>txn_manager := Some (complete_transaction t)\<rparr>,
            raised = None\<rparr> \<and>
         txn_status (complete_transaction t) = READY \<and>
         (\<forall>r. SendEndTxnRequest r \<notin> set (actions (do_txn_commit p commit_result sent)))"
  using assms by (simp add: do_txn_commit_def complete_transaction_def)

theorem empty_transaction_completes_locally_witness:
  "txn_manager example_ending_producer =
     Some (example_txn_manager\<lparr>txn_status := ABORTING, txn_partitions := {}\<rparr>) \<and>
   needs_transaction_commit (example_txn_manager\<lparr>txn_status := ABORTING, txn_partitions := {}\<rparr>) =
     Some ABORT \<and>
   is_empty_transaction (example_txn_manager\<lparr>txn_status := ABORTING, txn_partitions := {}\<rparr>) \<and>
   actions (do_txn_commit example_ending_producer ABORT (Inr 0)) = [FlushForCommit] \<and>
   raised (do_txn_commit example_ending_producer ABORT (Inr 0)) = None \<and>
   map_option txn_status
     (txn_manager (producer_after (do_txn_commit example_ending_producer ABORT (Inr 0)))) =
     Some READY"
proof -
  let ?t = "example_txn_manager\<lparr>txn_status := ABORTING, txn_partitions := {}\<rparr>"
  have h1: "txn_manager example_ending_producer = Some ?t"
    by (simp add: example_ending_producer_def)
  have h2: "needs_transaction_commit ?t = Some ABORT"
    by (simp add: needs_transaction_commit_def)
  have h3: "is_empty_transaction ?t"
    by (simp add: is_empty_transaction_def example_txn_manager_def)
  show ?thesis
    using empty_transaction_completes_locally [OF h1 h2 h3, of "Inr 0"] h1 h2 h3
    by simp
qed

text \<open>A transaction that is not empty does send the EndTxnRequest.\<close>

lemma nonempty_transaction_sends_end_txn:
  assumes "txn_manager p = Some t" and "\<not> is_empty_transaction t"
  shows "SendEndTxnRequest commit_result \<in> set (actions (do_txn_commit p commit_result sent))"
  using assms by (auto simp: do_txn_commit_def Let_def split: sum.splits)

subsection \<open>Backing off after AddPartitionsToTxn\<close>

text \<open>
  A response in which every entry is one the loop goes on from: the sub-task drops the
  coordinator for each entry that says so and ends with one sleep, of the shortened backoff
  when some entry reports ConcurrentTransactions and no partition is in the transaction
  yet, and of the backoff it started with otherwise.
\<close>

lemma add_partitions_entries_backoff:
  assumes "list_all (\<lambda>e. retried (for_code p (snd e))) entries"
  shows "\<exists>n. add_partitions_entries p t backoff acts entries =
     \<lparr>actions = acts @ replicate n CoordinatorDead @
        [Sleep (if txn_partitions t = {} \<and>
                   list_ex (\<lambda>e. for_code p (snd e) = ConcurrentTransactions) entries
                then BACKOFF_OVERRIDE else backoff)],
      producer_after = p, raised = None\<rparr>"
  using assms
proof (induction entries arbitrary: backoff acts)
  case Nil
  then show ?case by simp
next
  case (Cons e entries)
  obtain tp code where e: "e = (tp, code)" by (cases e)
  from Cons.prems have r: "retried (for_code p code)"
    and rest: "list_all (\<lambda>e. retried (for_code p (snd e))) entries"
    by (simp_all add: e)
  show ?case
  proof (cases "for_code p code = ConcurrentTransactions")
    case True
    show ?thesis
    proof (cases "txn_partitions t = {}")
      case empty: True
      show ?thesis
        using Cons.IH [OF rest, of BACKOFF_OVERRIDE acts] True empty
        by (simp add: e Let_def)
    next
      case nonempty: False
      show ?thesis
        using Cons.IH [OF rest, of backoff acts] True nonempty
        by (simp add: e Let_def)
    qed
  next
    case False
    show ?thesis
    proof (cases "for_code p code = CoordinatorNotAvailableError \<or>
        for_code p code = NotCoordinatorError")
      case True
      from Cons.IH [OF rest, of backoff "acts @ [CoordinatorDead]"]
      obtain n where "add_partitions_entries p t backoff (acts @ [CoordinatorDead]) entries =
        \<lparr>actions = (acts @ [CoordinatorDead]) @ replicate n CoordinatorDead @
          [Sleep (if txn_partitions t = {} \<and>
                   list_ex (\<lambda>e. for_code p (snd e) = ConcurrentTransactions) entries
                then BACKOFF_OVERRIDE else backoff)],
         producer_after = p, raised = None\<rparr>" by blast
      then have "add_partitions_entries p t backoff acts (e # entries) =
        \<lparr>actions = acts @ replicate (Suc n) CoordinatorDead @
          [Sleep (if txn_partitions t = {} \<and>
                   list_ex (\<lambda>e. for_code p (snd e) = ConcurrentTransactions) (e # entries)
                then BACKOFF_OVERRIDE else backoff)],
         producer_after = p, raised = None\<rparr>"
        using True False by (auto simp: e Let_def)
      then show ?thesis by blast
    next
      case nd: False
      with r False have "for_code p code = CoordinatorLoadInProgressError \<or>
          for_code p code = UnknownTopicOrPartitionError"
        by (auto simp: retried_def)
      then show ?thesis
        using Cons.IH [OF rest, of backoff acts] False nd
        by (auto simp: e Let_def)
    qed
  qed
qed

text \<open>
  C9. When the response to AddPartitionsToTxn reports ConcurrentTransactions and the
  sub-task backs off (no entry reports NoError, at which it returns, and none an error it
  raises), the backoff it sleeps is \<^verbatim>\<open>BACKOFF_OVERRIDE\<close>, 20 ms, when
  \<^verbatim>\<open>txn_partitions\<close> is empty, and \<^verbatim>\<open>self._retry_backoff\<close> when partitions
  have been added.
\<close>

theorem concurrent_transactions_backoff:
  assumes "txn_manager p = Some t"
    and "list_all (\<lambda>e. retried (for_code p (snd e))) (response_entries errors)"
    and "list_ex (\<lambda>e. for_code p (snd e) = ConcurrentTransactions) (response_entries errors)"
  shows "(\<exists>n. do_add_partitions_to_txn p tps (Inr errors) =
            \<lparr>actions = [FindCoordinator, SendAddPartitionsToTxnRequest tps] @
               replicate n CoordinatorDead @
               [Sleep (if txn_partitions t = {} then BACKOFF_OVERRIDE else retry_backoff p)],
             producer_after = p, raised = None\<rparr>) \<and>
         BACKOFF_OVERRIDE * 1000 = 20"
  using assms add_partitions_entries_backoff [OF assms(2), of t "retry_backoff p"
      "[FindCoordinator, SendAddPartitionsToTxnRequest tps]"]
  by (simp add: do_add_partitions_to_txn_def BACKOFF_OVERRIDE_def)

theorem concurrent_transactions_backoff_witness:
  "txn_manager example_enlisting_producer =
     Some (example_txn_manager\<lparr>txn_partitions := {}, pending_partitions := {(''t'', 0)}\<rparr>) \<and>
   list_all (\<lambda>e. retried (for_code example_enlisting_producer (snd e)))
     (response_entries [(''t'', [(0, 51)])]) \<and>
   list_ex (\<lambda>e. for_code example_enlisting_producer (snd e) = ConcurrentTransactions)
     (response_entries [(''t'', [(0, 51)])]) \<and>
   last (actions (do_add_partitions_to_txn example_enlisting_producer {(''t'', 0)}
      (Inr [(''t'', [(0, 51)])]))) = Sleep 0.02 \<and>
   last (actions (do_add_partitions_to_txn example_txn_producer {(''t'', 1)}
      (Inr [(''t'', [(1, 51)])]))) = Sleep 0.1"
proof -
  let ?t0 = "example_txn_manager\<lparr>txn_partitions := {}, pending_partitions := {(''t'', 0)}\<rparr>"
  have h1: "txn_manager example_enlisting_producer = Some ?t0"
    by (simp add: example_enlisting_producer_def)
  have g1: "txn_manager example_txn_producer = Some example_txn_manager"
    by (simp add: example_txn_producer_def)
  have c: "for_code example_enlisting_producer 51 = ConcurrentTransactions"
    "for_code example_txn_producer 51 = ConcurrentTransactions"
    by (simp_all add: example_enlisting_producer_def example_txn_producer_def
        example_producer_def example_for_code_def)
  have h2: "list_all (\<lambda>e. retried (for_code example_enlisting_producer (snd e)))
      (response_entries [(''t'', [(0, 51)])])"
    and h3: "list_ex (\<lambda>e. for_code example_enlisting_producer (snd e) = ConcurrentTransactions)
      (response_entries [(''t'', [(0, 51)])])"
    and g2: "list_all (\<lambda>e. retried (for_code example_txn_producer (snd e)))
      (response_entries [(''t'', [(1, 51)])])"
    and g3: "list_ex (\<lambda>e. for_code example_txn_producer (snd e) = ConcurrentTransactions)
      (response_entries [(''t'', [(1, 51)])])"
    by (simp_all add: c response_entries_def retried_def)
  have e0: "txn_partitions ?t0 = {}" by simp
  have e1: "txn_partitions example_txn_manager \<noteq> {}"
    by (simp add: example_txn_manager_def)
  have b: "retry_backoff example_txn_producer = 0.1"
    by (simp add: example_txn_producer_def example_producer_def)
  from concurrent_transactions_backoff [OF h1 h2 h3, of "{(''t'', 0)}"] e0
  have l0: "last (actions (do_add_partitions_to_txn example_enlisting_producer {(''t'', 0)}
      (Inr [(''t'', [(0, 51)])]))) = Sleep 0.02"
    by (auto simp: BACKOFF_OVERRIDE_def)
  from concurrent_transactions_backoff [OF g1 g2 g3, of "{(''t'', 1)}"] e1 b
  have l1: "last (actions (do_add_partitions_to_txn example_txn_producer {(''t'', 1)}
      (Inr [(''t'', [(1, 51)])]))) = Sleep 0.1"
    by auto
  show ?thesis using h1 h2 h3 l0 l1 by simp
qed

text \<open>
  An entry with NoError after one with ConcurrentTransactions: the sub-task marks the
  partition added and returns at once, without a sleep.
\<close>

lemma no_error_entry_returns_without_backoff:
  "actions (do_add_partitions_to_txn example_enlisting_producer {(''t'', 0), (''t'', 1)}
      (Inr [(''t'', [(0, 51), (1, 0)])])) =
     [FindCoordinator, SendAddPartitionsToTxnRequest {(''t'', 0), (''t'', 1)}]"
  by (simp add: do_add_partitions_to_txn_def response_entries_def example_enlisting_producer_def
      example_txn_producer_def example_producer_def example_for_code_def Let_def)

subsection \<open>The result of draining\<close>

lemma add_to_node_keys:
  "set (map fst (add_to_node node entry nodes)) = insert node (set (map fst nodes))"
  by (induction node entry nodes rule: add_to_node.induct) (simp_all add: insert_commute)

lemma add_to_node_distinct:
  "distinct (map fst nodes) \<Longrightarrow> distinct (map fst (add_to_node node entry nodes))"
proof (induction nodes)
  case Nil
  then show ?case by simp
next
  case (Cons x nodes)
  obtain n entries where x: "x = (n, entries)" by (cases x)
  show ?case
  proof (cases "n = node")
    case True
    with Cons.prems show ?thesis by (simp add: x)
  next
    case False
    from Cons.prems have "n \<notin> set (map fst nodes)" and d: "distinct (map fst nodes)"
      by (simp_all add: x)
    with False have "n \<notin> set (map fst (add_to_node node entry nodes))"
      by (simp only: add_to_node_keys) simp
    with Cons.IH [OF d] False show ?thesis by (simp add: x)
  qed
qed

lemma add_to_node_partitions:
  "set (drained_partitions (add_to_node node entry nodes)) =
     insert (fst entry) (set (drained_partitions nodes))"
  by (induction node entry nodes rule: add_to_node.induct)
    (simp_all add: drained_partitions_def insert_commute Un_insert_right Un_insert_left)

lemma add_to_node_ok:
  assumes "drained_ok ignore_nodes muted nodes" and "node \<notin> ignore_nodes" and "tp \<notin> muted"
  shows "drained_ok ignore_nodes muted (add_to_node node (tp, batch) nodes)"
  using assms
  unfolding drained_ok_def add_to_node_keys add_to_node_partitions
  by (simp add: add_to_node_distinct)

lemma drain_partitions_ok:
  "drained_ok ignore_nodes muted (fst drained) \<Longrightarrow>
   drained_ok ignore_nodes muted (fst (drain_partitions leader ignore_nodes muted acc drained))"
proof (induction acc arbitrary: drained)
  case Nil
  then show ?case by simp
next
  case (Cons a acc)
  obtain tp queue where a: "a = (tp, queue)" by (cases a)
  obtain nodes unknown where d: "drained = (nodes, unknown)" by (cases drained)
  from Cons.prems have ok: "drained_ok ignore_nodes muted nodes" by (simp add: d)
  have keep: "\<And>u. drained_ok ignore_nodes muted
      (fst (drain_partitions leader ignore_nodes muted acc (nodes, u)))"
    using Cons.IH ok by simp
  show ?case
  proof (cases "tp \<in> muted")
    case True
    then show ?thesis using keep by (simp add: a d)
  next
    case unmuted: False
    show ?thesis
    proof (cases "leader tp")
      case None
      then show ?thesis using keep unmuted by (simp add: a d)
    next
      case (Some node)
      show ?thesis
      proof (cases "node \<in> ignore_nodes")
        case True
        then show ?thesis using keep unmuted Some by (simp add: a d)
      next
        case free: False
        show ?thesis
        proof (cases queue)
          case Nil
          then show ?thesis using keep unmuted Some free by (simp add: a d)
        next
          case (Cons batch later)
          have "drained_ok ignore_nodes muted
              (fst (drain_partitions leader ignore_nodes muted acc
                 (add_to_node node (tp, batch) nodes, unknown)))"
            using Cons.IH [of "(add_to_node node (tp, batch) nodes, unknown)"]
              add_to_node_ok [OF ok free unmuted]
            by simp
          then show ?thesis using keep unmuted Some free Cons by (simp add: a d)
        qed
      qed
    qed
  qed
qed

lemma drain_by_nodes_ok:
  "drained_ok ignore_nodes muted (fst (drain_by_nodes leader acc ignore_nodes muted))"
  unfolding drain_by_nodes_def
  by (rule drain_partitions_ok) (simp add: drained_ok_def drained_partitions_def)

subsection \<open>The invariant of the sender\<close>

lemma foldl_produce_tasks:
  "produce_tasks (foldl start_produce_task s tasks) = produce_tasks s @ tasks"
  by (induction tasks arbitrary: s) (simp_all add: start_produce_task_def)

lemma foldl_in_flight:
  "in_flight (sender_producer (foldl start_produce_task s tasks)) =
     in_flight (sender_producer s) \<union> set (map fst tasks)"
  by (induction tasks arbitrary: s) (simp_all add: start_produce_task_def)

lemma foldl_muted_partitions:
  "muted_partitions (sender_producer (foldl start_produce_task s tasks)) =
     muted_partitions (sender_producer s) \<union> set (drained_partitions tasks)"
  by (induction tasks arbitrary: s)
    (simp_all add: start_produce_task_def drained_partitions_def Un_assoc)

lemma foldl_txn_manager:
  "txn_manager (sender_producer (foldl start_produce_task s tasks)) =
     txn_manager (sender_producer s)"
  by (induction tasks arbitrary: s) (simp_all add: start_produce_task_def)

lemma foldl_txn_tasks:
  "txn_task (foldl start_produce_task s tasks) = txn_task s \<and>
   txn_running (foldl start_produce_task s tasks) = txn_running s \<and>
   txn_started (foldl start_produce_task s tasks) = txn_started s"
  by (induction tasks arbitrary: s) (simp_all add: start_produce_task_def)

lemma subset_singleton_notin: "A \<subseteq> {a} \<Longrightarrow> a \<notin> A \<Longrightarrow> A = {}"
  by auto

lemma maybe_start_txn_task_waits:
  assumes "\<not> (case txn_task s of None \<Rightarrow> True | Some i \<Rightarrow> task_done s i)"
  shows "maybe_start_txn_task t s = s"
  by (simp only: maybe_start_txn_task_def assms if_False)

lemma maybe_start_txn_task_nothing:
  assumes "case txn_task s of None \<Rightarrow> True | Some i \<Rightarrow> task_done s i"
    and "maybe_do_transactional_request t = None"
  shows "maybe_start_txn_task t s = s\<lparr>txn_task := None\<rparr>"
  by (simp only: maybe_start_txn_task_def assms if_True option.case)

lemma maybe_start_txn_task_starts:
  assumes "case txn_task s of None \<Rightarrow> True | Some i \<Rightarrow> task_done s i"
    and "maybe_do_transactional_request t = Some request"
  shows "maybe_start_txn_task t s =
      s\<lparr>txn_task := Some (txn_started s),
        txn_running := txn_running s @ [(txn_started s, request)],
        txn_started := Suc (txn_started s)\<rparr>"
  by (simp only: maybe_start_txn_task_def assms if_True option.case)

lemma maybe_start_txn_task_produce:
  "produce_tasks (maybe_start_txn_task t s) = produce_tasks s \<and>
   sender_producer (maybe_start_txn_task t s) = sender_producer s"
proof (cases "case txn_task s of None \<Rightarrow> True | Some i \<Rightarrow> task_done s i")
  case False
  then show ?thesis by (simp only: maybe_start_txn_task_waits simp_thms)
next
  case True
  show ?thesis
  proof (cases "maybe_do_transactional_request t")
    case None
    show ?thesis
      unfolding maybe_start_txn_task_nothing [OF True None] by simp
  next
    case (Some request)
    show ?thesis
      unfolding maybe_start_txn_task_starts [OF True Some] by simp
  qed
qed

lemma maybe_start_txn_task_txn:
  assumes "distinct (map fst (txn_running s))"
    and "set (map fst (txn_running s)) \<subseteq> set_option (txn_task s)"
  shows "distinct (map fst (txn_running (maybe_start_txn_task t s))) \<and>
         set (map fst (txn_running (maybe_start_txn_task t s))) \<subseteq>
           set_option (txn_task (maybe_start_txn_task t s))"
proof (cases "case txn_task s of None \<Rightarrow> True | Some i \<Rightarrow> task_done s i")
  case False
  show ?thesis
    unfolding maybe_start_txn_task_waits [OF False] using assms by simp
next
  case True
  have "fst ` set (txn_running s) = {}"
  proof (cases "txn_task s")
    case None
    with assms(2) show ?thesis by simp
  next
    case (Some i)
    with True have n: "i \<notin> fst ` set (txn_running s)" by (simp add: task_done_def)
    from Some assms(2) have "fst ` set (txn_running s) \<subseteq> {i}" by simp
    then show ?thesis using n by (rule subset_singleton_notin)
  qed
  then have e: "txn_running s = []" by simp
  show ?thesis
  proof (cases "maybe_do_transactional_request t")
    case None
    show ?thesis
      unfolding maybe_start_txn_task_nothing [OF True None] using e by simp
  next
    case (Some request)
    show ?thesis
      unfolding maybe_start_txn_task_starts [OF True Some] using e by simp
  qed
qed

lemma sender_iteration_invariant:
  assumes "sender_invariant s"
  shows "sender_invariant (sender_iteration leader acc s)"
proof -
  let ?p = "sender_producer s"
  define s1 where "s1 = (case txn_manager ?p of
                  None \<Rightarrow> s
                | Some t \<Rightarrow> if transactional_id t \<noteq> None then maybe_start_txn_task t s else s)"
  define batches where "batches = fst (drain_by_nodes leader acc (in_flight ?p) (sender_muted ?p))"
  have it: "sender_iteration leader acc s = foldl start_produce_task s1 batches"
    by (simp add: sender_iteration_def s1_def batches_def Let_def case_prod_beta)
  have p1: "produce_tasks s1 = produce_tasks s" "sender_producer s1 = sender_producer s"
    by (auto simp: s1_def maybe_start_txn_task_produce split: option.splits)
  have t1: "distinct (map fst (txn_running s1)) \<and>
         set (map fst (txn_running s1)) \<subseteq> set_option (txn_task s1)"
    using assms maybe_start_txn_task_txn [of s]
    by (auto simp: s1_def sender_invariant_def split: option.splits)
  have ok: "drained_ok (in_flight ?p) (sender_muted ?p) batches"
    unfolding batches_def by (rule drain_by_nodes_ok)
  note f = foldl_produce_tasks [of s1 batches] foldl_in_flight [of s1 batches]
    foldl_txn_tasks [of s1 batches]
  have d: "distinct (map fst (produce_tasks s @ batches))"
    using assms ok by (auto simp: sender_invariant_def drained_ok_def)
  show ?thesis
    unfolding it sender_invariant_def
    using f d t1 p1 assms by (auto simp: sender_invariant_def)
qed

lemma send_produce_req_in_flight:
  "send_produce_req p now node batches sent = Inr (p', outcome) \<Longrightarrow>
   node \<in> in_flight p \<and> in_flight p' = in_flight p - {node}"
  by (auto simp: send_produce_req_def Let_def split: if_splits)

lemma remove1_keys:
  "distinct (map fst xs) \<Longrightarrow> x \<in> set xs \<Longrightarrow>
   distinct (map fst (remove1 x xs)) \<and> set (map fst (remove1 x xs)) = set (map fst xs) - {fst x}"
proof (induction xs)
  case Nil
  then show ?case by simp
next
  case (Cons y xs)
  show ?case
  proof (cases "x = y")
    case True
    with Cons.prems show ?thesis by auto
  next
    case False
    with Cons.prems have x: "x \<in> set xs" and d: "distinct (map fst xs)"
      and y: "fst y \<notin> fst ` set xs" by auto
    from x y have "fst x \<noteq> fst y" by (metis imageI)
    with Cons.IH [OF d x] y False show ?thesis by auto
  qed
qed

lemma sender_step_invariant:
  assumes "sender_step s s'" and "sender_invariant s"
  shows "sender_invariant s'"
  using assms
proof (induction rule: sender_step.induct)
  case (round s leader acc)
  then show ?case by (rule sender_iteration_invariant)
next
  case (produce_finished node batches s now sent p' outcome)
  from produce_finished(3) have d: "distinct (map fst (produce_tasks s))"
    by (simp add: sender_invariant_def)
  from remove1_keys [OF d produce_finished(1)] send_produce_req_in_flight [OF produce_finished(2)]
    produce_finished(3)
  show ?case by (simp add: sender_invariant_def)
next
  case (txn_finished i request s t t')
  then show ?case
    by (auto simp: sender_invariant_def distinct_map_filter)
next
  case (user_call s t t')
  then show ?case by (simp add: sender_invariant_def)
qed

lemma reachable_invariant: "reachable p s \<Longrightarrow> sender_invariant s"
proof (induction rule: reachable.induct)
  case (start p)
  show ?case by (simp add: sender_invariant_def initial_sender_state_def)
next
  case (step p s s')
  then show ?case by (blast intro: sender_step_invariant)
qed

lemma distinct_in_singleton: "distinct xs \<Longrightarrow> set xs \<subseteq> {a} \<Longrightarrow> length xs \<le> 1"
proof -
  assume d: "distinct xs" and s: "set xs \<subseteq> {a}"
  have "length xs = card (set xs)" using d by (simp add: distinct_card)
  also have "\<dots> \<le> card {a}" using s by (intro card_mono) simp_all
  finally show ?thesis by simp
qed

lemma invariant_one_txn_task:
  assumes "sender_invariant s"
  shows "length (txn_running s) \<le> 1"
proof (cases "txn_task s")
  case None
  with assms show ?thesis by (simp add: sender_invariant_def)
next
  case (Some i)
  with assms have "distinct (map fst (txn_running s))"
    and "set (map fst (txn_running s)) \<subseteq> {i}"
    by (simp_all add: sender_invariant_def)
  from distinct_in_singleton [OF this] show ?thesis by simp
qed

lemma sender_iteration_txn_running:
  assumes "sender_invariant s" and "txn_running (sender_iteration leader acc s) \<noteq> txn_running s"
  shows "txn_running s = []"
proof -
  let ?p = "sender_producer s"
  have r: "txn_running (sender_iteration leader acc s) =
      txn_running (case txn_manager ?p of
                  None \<Rightarrow> s
                | Some t \<Rightarrow> if transactional_id t \<noteq> None then maybe_start_txn_task t s else s)"
    by (simp add: sender_iteration_def Let_def case_prod_beta foldl_txn_tasks)
  with assms(2) obtain t where ch: "txn_running (maybe_start_txn_task t s) \<noteq> txn_running s"
    by (auto split: option.splits if_splits)
  then have c: "case txn_task s of None \<Rightarrow> True | Some i \<Rightarrow> task_done s i"
    by (auto simp: maybe_start_txn_task_def split: if_splits)
  have "fst ` set (txn_running s) = {}"
  proof (cases "txn_task s")
    case None
    with assms(1) show ?thesis by (simp add: sender_invariant_def)
  next
    case (Some i)
    with c have n: "i \<notin> fst ` set (txn_running s)" by (simp add: task_done_def)
    from Some assms(1) have "fst ` set (txn_running s) \<subseteq> {i}"
      by (simp add: sender_invariant_def)
    then show ?thesis using n by (rule subset_singleton_notin)
  qed
  then show ?thesis by simp
qed

text \<open>A round of the sender on the example accumulator, from the initial state.\<close>

lemma example_round:
  "sender_iteration example_leader example_accumulator
     (initial_sender_state example_enlisting_producer) =
   \<lparr>sender_producer =
      example_enlisting_producer\<lparr>in_flight := {1}, muted_partitions := {(''t'', 1)}\<rparr>,
    produce_tasks = [(1, [((''t'', 1), example_batch)])],
    txn_task = Some 0,
    txn_running = [(0, AddPartitionsToTxn {(''t'', 0)})],
    txn_started = 1\<rparr>"
  by (simp add: sender_iteration_def initial_sender_state_def example_enlisting_producer_def
      example_txn_producer_def example_txn_manager_def example_producer_def
      example_accumulator_def example_leader_def example_batch_def
      drain_by_nodes_def sender_muted_def partitions_to_add_def maybe_start_txn_task_def
      maybe_do_transactional_request_def start_produce_task_def Let_def)

text \<open>
  C3. In every state the sender can reach, the unfinished runs of
  \<^verbatim>\<open>_send_produce_req\<close> are for different nodes, and these are the nodes in
  \<^verbatim>\<open>self._in_flight\<close>, which a round leaves out of what it drains (a run takes its
  node out only when it ends); and at most one transactional sub-task is unfinished, since a
  round that starts one finds none running.
\<close>

theorem one_request_in_flight:
  assumes "reachable p s"
  shows "distinct (map fst (produce_tasks s)) \<and>
         set (map fst (produce_tasks s)) = in_flight (sender_producer s) \<and>
         set (map fst (fst (drain_by_nodes leader acc (in_flight (sender_producer s)) muted))) \<inter>
           in_flight (sender_producer s) = {} \<and>
         length (txn_running s) \<le> 1 \<and>
         (txn_running (sender_iteration leader acc s) = txn_running s \<or> txn_running s = [])"
proof -
  have i: "sender_invariant s" using assms by (rule reachable_invariant)
  have d: "drained_ok (in_flight (sender_producer s)) muted
      (fst (drain_by_nodes leader acc (in_flight (sender_producer s)) muted))"
    by (rule drain_by_nodes_ok)
  show ?thesis
    using i d invariant_one_txn_task [OF i] sender_iteration_txn_running [OF i, of leader acc]
    by (auto simp: sender_invariant_def drained_ok_def)
qed

theorem one_request_in_flight_witness:
  "reachable example_enlisting_producer
     (sender_iteration example_leader example_accumulator
        (initial_sender_state example_enlisting_producer)) \<and>
   produce_tasks (sender_iteration example_leader example_accumulator
        (initial_sender_state example_enlisting_producer)) =
     [(1, [((''t'', 1), example_batch)])] \<and>
   in_flight (sender_producer (sender_iteration example_leader example_accumulator
        (initial_sender_state example_enlisting_producer))) = {1} \<and>
   txn_running (sender_iteration example_leader example_accumulator
        (initial_sender_state example_enlisting_producer)) =
     [(0, AddPartitionsToTxn {(''t'', 0)})] \<and>
   fst (drain_by_nodes example_leader example_accumulator {1} {}) = [] \<and>
   txn_running (sender_iteration example_leader example_accumulator
     (sender_iteration example_leader example_accumulator
        (initial_sender_state example_enlisting_producer))) =
     [(0, AddPartitionsToTxn {(''t'', 0)})]"
proof -
  let ?s = "sender_iteration example_leader example_accumulator
        (initial_sender_state example_enlisting_producer)"
  have r: "reachable example_enlisting_producer ?s"
    by (rule reachable.step [OF reachable.start sender_step.round])
  have d: "fst (drain_by_nodes example_leader example_accumulator {1} {}) = []"
    by (simp add: drain_by_nodes_def example_accumulator_def example_leader_def)
  have f: "in_flight (sender_producer ?s) = {1}" by (simp add: example_round)
  from one_request_in_flight [OF r, of example_leader example_accumulator "{}"]
  have "txn_running (sender_iteration example_leader example_accumulator ?s) = txn_running ?s"
    by (simp add: example_round)
  then show ?thesis using r d by (simp add: example_round)
qed

text \<open>
  C2. In a round of the sender of a transactional producer, the muted partitions passed to
  \<^verbatim>\<open>drain_by_nodes\<close> are \<^verbatim>\<open>self._muted_partitions\<close> joined with
  \<^verbatim>\<open>partitions_to_add()\<close>, the produce tasks the round starts are the batches
  drained under them, and no partition of these is among the pending partitions of the
  transaction manager. The same holds for a producer that is only idempotent, whose
  transaction manager has no pending partition.
\<close>

theorem pending_partitions_are_muted:
  assumes "txn_manager (sender_producer s) = Some t"
    and "pending_partitions t = {} \<or> transactional_id t \<noteq> None"
  shows "sender_muted (sender_producer s) =
           muted_partitions (sender_producer s) \<union> partitions_to_add t \<and>
         produce_tasks (sender_iteration leader acc s) =
           produce_tasks s @
           fst (drain_by_nodes leader acc (in_flight (sender_producer s))
                  (sender_muted (sender_producer s))) \<and>
         set (drained_partitions
                (fst (drain_by_nodes leader acc (in_flight (sender_producer s))
                        (sender_muted (sender_producer s))))) \<inter>
           pending_partitions t = {}"
proof -
  let ?p = "sender_producer s"
  have m: "sender_muted ?p = muted_partitions ?p \<union> partitions_to_add t"
    using assms by (auto simp: sender_muted_def partitions_to_add_def)
  have s1: "produce_tasks (case txn_manager ?p of
                  None \<Rightarrow> s
                | Some t \<Rightarrow> if transactional_id t \<noteq> None then maybe_start_txn_task t s else s) =
      produce_tasks s"
    by (simp add: maybe_start_txn_task_produce split: option.splits)
  have t: "produce_tasks (sender_iteration leader acc s) =
      produce_tasks s @ fst (drain_by_nodes leader acc (in_flight ?p) (sender_muted ?p))"
    by (simp add: sender_iteration_def Let_def case_prod_beta foldl_produce_tasks s1)
  have "drained_ok (in_flight ?p) (sender_muted ?p)
      (fst (drain_by_nodes leader acc (in_flight ?p) (sender_muted ?p)))"
    by (rule drain_by_nodes_ok)
  then have "set (drained_partitions
      (fst (drain_by_nodes leader acc (in_flight ?p) (sender_muted ?p)))) \<inter>
      (muted_partitions ?p \<union> partitions_to_add t) = {}"
    unfolding m by (simp add: drained_ok_def)
  then have "set (drained_partitions
      (fst (drain_by_nodes leader acc (in_flight ?p) (sender_muted ?p)))) \<inter>
      pending_partitions t = {}"
    by (auto simp: partitions_to_add_def)
  with m t show ?thesis by simp
qed

theorem pending_partitions_are_muted_witness:
  "txn_manager (sender_producer (initial_sender_state example_enlisting_producer)) =
     Some (example_txn_manager\<lparr>txn_partitions := {}, pending_partitions := {(''t'', 0)}\<rparr>) \<and>
   transactional_id (example_txn_manager\<lparr>txn_partitions := {}, pending_partitions := {(''t'', 0)}\<rparr>)
     \<noteq> None \<and>
   sender_muted (sender_producer (initial_sender_state example_enlisting_producer)) =
     {(''t'', 0)} \<and>
   produce_tasks (sender_iteration example_leader example_accumulator
        (initial_sender_state example_enlisting_producer)) =
     [(1, [((''t'', 1), example_batch)])] \<and>
   (''t'', 0) \<notin> set (drained_partitions (produce_tasks
      (sender_iteration example_leader example_accumulator
        (initial_sender_state example_enlisting_producer))))"
proof -
  let ?t = "example_txn_manager\<lparr>txn_partitions := {}, pending_partitions := {(''t'', 0)}\<rparr>"
  let ?s0 = "initial_sender_state example_enlisting_producer"
  have h1: "txn_manager (sender_producer ?s0) = Some ?t"
    by (simp add: initial_sender_state_def example_enlisting_producer_def)
  have h2: "pending_partitions ?t = {} \<or> transactional_id ?t \<noteq> None"
    by (simp add: example_txn_manager_def)
  have e: "muted_partitions (sender_producer ?s0) \<union> partitions_to_add ?t = {(''t'', 0)}"
    by (simp add: initial_sender_state_def partitions_to_add_def)
  from pending_partitions_are_muted [OF h1 h2, of example_leader example_accumulator]
  have "sender_muted (sender_producer ?s0) =
      muted_partitions (sender_producer ?s0) \<union> partitions_to_add ?t"
    by (rule conjunct1)
  then have m: "sender_muted (sender_producer ?s0) = {(''t'', 0)}"
    by (simp only: e)
  have c2: "transactional_id ?t \<noteq> None" by (simp add: example_txn_manager_def)
  have c4: "produce_tasks (sender_iteration example_leader example_accumulator ?s0) =
      [(1, [((''t'', 1), example_batch)])]"
    by (simp add: example_round)
  have c5: "(''t'', 0) \<notin> set (drained_partitions (produce_tasks
      (sender_iteration example_leader example_accumulator ?s0)))"
    by (simp add: example_round drained_partitions_def)
  show ?thesis
    by (intro conjI h1 c2 m c4 c5)
qed

end
